theory Spec2Isabelle
  imports Complex_Main
begin

section \<open>Values of the source language\<close>

text \<open>
  The period day component, in the richer of its two variants (the one with multi period
  sections), computes style objects from an optional marking. It never does arithmetic
  on numbers: it tests them for truthiness and copies them. A number is therefore a finite value, written as the rational its literal
  denotes (negative zero is zero), or one of the three values that are not finite.
  An optional property is an \<open>option\<close>; a key holding \<^verbatim>\<open>undefined\<close> and a missing key
  both read as \<^verbatim>\<open>undefined\<close> in the source and are both \<open>None\<close>.
\<close>

datatype number = NaN | PosInfinity | NegInfinity | Num rat

type_synonym ColorValue = string

text \<open>Truthiness: \<^verbatim>\<open>undefined\<close>, \<^verbatim>\<open>false\<close>, \<^verbatim>\<open>0\<close>, \<^verbatim>\<open>NaN\<close> and the empty string are falsy.\<close>

fun truthyBool :: "bool option \<Rightarrow> bool" where
  "truthyBool None = False"
| "truthyBool (Some b) = b"

fun truthyString :: "string option \<Rightarrow> bool" where
  "truthyString None = False"
| "truthyString (Some s) = (s \<noteq> [])"

fun truthyNumber :: "number option \<Rightarrow> bool" where
  "truthyNumber None = False"
| "truthyNumber (Some NaN) = False"
| "truthyNumber (Some (Num r)) = (r \<noteq> 0)"
| "truthyNumber (Some PosInfinity) = True"
| "truthyNumber (Some NegInfinity) = True"

text \<open>\<^verbatim>\<open>a || b\<close> on two optional strings, and \<^verbatim>\<open>a || d\<close> with a number literal \<open>d\<close>.\<close>

definition orString :: "string option \<Rightarrow> string option \<Rightarrow> string option" where
  "orString a b = (if truthyString a then a else b)"

definition orNumber :: "number option \<Rightarrow> number \<Rightarrow> number" where
  "orNumber a d = (case a of None \<Rightarrow> d | Some v \<Rightarrow> if truthyNumber a then v else d)"

section \<open>Data model\<close>

text \<open>The keys of a view style that the component reads or writes.\<close>

record ViewStyle =
  backgroundColor :: "ColorValue option"
  borderColor :: "ColorValue option"
  borderWidth :: "number option"
  borderRadius :: "number option"
  borderTopWidth :: "number option"
  borderBottomWidth :: "number option"
  borderLeftWidth :: "number option"
  borderRightWidth :: "number option"
  borderTopLeftRadius :: "number option"
  borderBottomLeftRadius :: "number option"
  borderTopRightRadius :: "number option"
  borderBottomRightRadius :: "number option"
  overflow :: "string option"
  paddingTop :: "number option"

record TextStyle =
  color :: "ColorValue option"

text \<open>The object literal \<^verbatim>\<open>{}\<close>.\<close>

definition emptyStyle :: ViewStyle where
  "emptyStyle = \<lparr>backgroundColor = None, borderColor = None, borderWidth = None,
     borderRadius = None, borderTopWidth = None, borderBottomWidth = None,
     borderLeftWidth = None, borderRightWidth = None, borderTopLeftRadius = None,
     borderBottomLeftRadius = None, borderTopRightRadius = None,
     borderBottomRightRadius = None, overflow = None, paddingTop = None\<rparr>"

definition emptyTextStyle :: TextStyle where
  "emptyTextStyle = \<lparr>color = None\<rparr>"

text \<open>The object literal \<^verbatim>\<open>{backgroundColor: 'transparent'}\<close> every filler starts from.\<close>

definition transparentStyle :: ViewStyle where
  "transparentStyle = emptyStyle\<lparr>backgroundColor := Some ''transparent''\<rparr>"

datatype DayState = Selected | Disabled | Inactive | Today | Empty

text \<open>
  \<^verbatim>\<open>MarkingProps\<close> is declared in \<^verbatim>\<open>../marking\<close>, outside the sources at hand; the
  fields and their types are those the component uses. The fields \<^verbatim>\<open>color\<close>,
  \<^verbatim>\<open>borderColor\<close> and \<^verbatim>\<open>borderRadius\<close> of the marking are \<open>markingColor\<close>,
  \<open>markingBorderColor\<close> and \<open>markingBorderRadius\<close> here, the plain names being keys of the
  styles. \<^verbatim>\<open>borderWith\<close> is the source's spelling.
\<close>

record MarkingProps =
  disabled :: "bool option"
  inactive :: "bool option"
  today :: "bool option"
  selected :: "bool option"
  disableTouchEvent :: "bool option"
  startingDay :: "bool option"
  endingDay :: "bool option"
  markingColor :: "ColorValue option"
  markingBorderColor :: "ColorValue option"
  borderWith :: "number option"
  markingBorderRadius :: "number option"
  textColor :: "ColorValue option"
  customTextStyle :: "TextStyle option"
  customContainerStyle :: "ViewStyle option"
  isMultiPeriod :: "bool option"
  leftSectionColor :: "ColorValue option"
  leftSectionBorderColor :: "ColorValue option"
  middleSectionColor :: "ColorValue option"
  middleSectionBorderColor :: "ColorValue option"
  rightSectionColor :: "ColorValue option"
  rightSectionBorderColor :: "ColorValue option"
  leftSectionIsSingleDay :: "bool option"
  rightSectionIsSingleDay :: "bool option"

definition emptyMarking :: MarkingProps where
  "emptyMarking = \<lparr>disabled = None, inactive = None, today = None, selected = None,
     disableTouchEvent = None, startingDay = None, endingDay = None, markingColor = None,
     markingBorderColor = None, borderWith = None, markingBorderRadius = None,
     textColor = None, customTextStyle = None, customContainerStyle = None,
     isMultiPeriod = None, leftSectionColor = None, leftSectionBorderColor = None,
     middleSectionColor = None, middleSectionBorderColor = None, rightSectionColor = None,
     rightSectionBorderColor = None, leftSectionIsSingleDay = None,
     rightSectionIsSingleDay = None\<rparr>"

text \<open>
  \<^verbatim>\<open>style.current\<close>, the sheet that \<^verbatim>\<open>styleConstructor(theme)\<close> of \<^verbatim>\<open>./style\<close> builds.
  It is outside the sources at hand and is a parameter of everything below.
\<close>

record Sheet =
  base :: ViewStyle
  todayStyle :: ViewStyle
  textBase :: TextStyle
  disabledText :: TextStyle
  inactiveText :: TextStyle
  selectedText :: TextStyle
  todayText :: TextStyle

text \<open>The type \<^verbatim>\<open>MarkingStyle\<close>; its fields carry the prefix \<open>ms_\<close>.\<close>

record MarkingStyle =
  ms_containerStyle :: ViewStyle
  ms_textStyle :: TextStyle
  ms_startingDay :: "ViewStyle option"
  ms_endingDay :: "ViewStyle option"
  ms_day :: "ViewStyle option"

record ThreeSectionFillerStyles =
  leftFillerStyle :: ViewStyle
  middleFillerStyle :: ViewStyle
  rightFillerStyle :: ViewStyle
  fillerStyle :: ViewStyle

text \<open>
  The \<^verbatim>\<open>borders\<close> argument of \<^verbatim>\<open>applyBorderToSection\<close>: eight optional flags, a missing
  one being falsy. \<^verbatim>\<open>top\<close> is \<open>topEdge\<close> here.
\<close>

record Borders =
  topEdge :: bool
  bottom :: bool
  left :: bool
  right :: bool
  topLeft :: bool
  bottomLeft :: bool
  topRight :: bool
  bottomRight :: bool

definition noBorders :: Borders where
  "noBorders = \<lparr>topEdge = False, bottom = False, left = False, right = False,
     topLeft = False, bottomLeft = False, topRight = False, bottomRight = False\<rparr>"

section \<open>The component\<close>

subsection \<open>State of the day\<close>

definition isDisabled :: "MarkingProps option \<Rightarrow> DayState option \<Rightarrow> bool" where
  "isDisabled marking state =
     (case marking of
        None \<Rightarrow> state = Some Disabled
      | Some m \<Rightarrow> (case disabled m of Some b \<Rightarrow> b | None \<Rightarrow> state = Some Disabled))"

definition isInactive :: "MarkingProps option \<Rightarrow> DayState option \<Rightarrow> bool" where
  "isInactive marking state =
     (case marking of
        None \<Rightarrow> state = Some Inactive
      | Some m \<Rightarrow> (case inactive m of Some b \<Rightarrow> b | None \<Rightarrow> state = Some Inactive))"

definition isToday :: "MarkingProps option \<Rightarrow> DayState option \<Rightarrow> bool" where
  "isToday marking state =
     (case marking of
        None \<Rightarrow> state = Some Today
      | Some m \<Rightarrow> (case today m of Some b \<Rightarrow> b | None \<Rightarrow> state = Some Today))"

subsection \<open>Touch events\<close>

text \<open>
  \<^verbatim>\<open>typeof x === 'boolean'\<close> holds of an optional boolean exactly when it is given.
  With no marking, \<^verbatim>\<open>marking || {}\<close> has no \<^verbatim>\<open>disableTouchEvent\<close>.
\<close>

definition shouldDisableTouchEvent ::
  "MarkingProps option \<Rightarrow> DayState option \<Rightarrow> bool option \<Rightarrow> bool option \<Rightarrow> bool" where
  "shouldDisableTouchEvent marking state disableAllTouchEventsForDisabledDays
       disableAllTouchEventsForInactiveDays =
     (let disableTouchEvent' = (case marking of None \<Rightarrow> None | Some m \<Rightarrow> disableTouchEvent m);
          disableTouch = False
      in if disableTouchEvent' \<noteq> None
         then the disableTouchEvent'
         else if disableAllTouchEventsForDisabledDays \<noteq> None \<and> isDisabled marking state
         then the disableAllTouchEventsForDisabledDays
         else if disableAllTouchEventsForInactiveDays \<noteq> None \<and> isInactive marking state
         then the disableAllTouchEventsForInactiveDays
         else disableTouch)"

subsection \<open>Marking style\<close>

definition defaultStyle :: MarkingStyle where
  "defaultStyle = \<lparr>ms_containerStyle = emptyStyle, ms_textStyle = emptyTextStyle,
     ms_startingDay = None, ms_endingDay = None, ms_day = None\<rparr>"

text \<open>The style object built for a starting and for an ending day (lines 103 and 112).\<close>

definition periodEdgeStyle :: "MarkingProps \<Rightarrow> ViewStyle" where
  "periodEdgeStyle m = emptyStyle
     \<lparr>backgroundColor := markingColor m,
      borderColor := orString (markingBorderColor m) (markingColor m),
      borderWidth := Some (orNumber (borderWith m) (Num (7/10))),
      borderRadius := Some (orNumber (markingBorderRadius m) (Num 9))\<rparr>"

text \<open>The style object built for a day inside a period (line 121): no radius.\<close>

definition periodDayStyle :: "MarkingProps \<Rightarrow> ViewStyle" where
  "periodDayStyle m = emptyStyle
     \<lparr>backgroundColor := markingColor m,
      borderColor := orString (markingBorderColor m) (markingColor m),
      borderWidth := Some (orNumber (borderWith m) (Num (7/10)))\<rparr>"

definition markingStyle :: "Sheet \<Rightarrow> MarkingProps option \<Rightarrow> MarkingStyle" where
  "markingStyle sheet marking =
     (case marking of
        None \<Rightarrow> defaultStyle
      | Some m \<Rightarrow>
          (let d1 = (if truthyBool (disabled m)
                     then defaultStyle\<lparr>ms_textStyle := \<lparr>color = color (disabledText sheet)\<rparr>\<rparr>
                     else if truthyBool (inactive m)
                     then defaultStyle\<lparr>ms_textStyle := \<lparr>color = color (inactiveText sheet)\<rparr>\<rparr>
                     else if truthyBool (selected m)
                     then defaultStyle\<lparr>ms_textStyle := \<lparr>color = color (selectedText sheet)\<rparr>\<rparr>
                     else defaultStyle);
               d2 = (if truthyBool (startingDay m)
                     then d1\<lparr>ms_startingDay := Some (periodEdgeStyle m)\<rparr> else d1);
               d3 = (if truthyBool (endingDay m)
                     then d2\<lparr>ms_endingDay := Some (periodEdgeStyle m)\<rparr> else d2);
               d4 = (if \<not> truthyBool (startingDay m) \<and> \<not> truthyBool (endingDay m)
                     then d3\<lparr>ms_day := Some (periodDayStyle m)\<rparr> else d3);
               d5 = (if truthyString (textColor m)
                     then d4\<lparr>ms_textStyle := \<lparr>color = textColor m\<rparr>\<rparr> else d4);
               d6 = (case customTextStyle m of
                       Some t \<Rightarrow> d5\<lparr>ms_textStyle := t\<rparr> | None \<Rightarrow> d5);
               d7 = (case customContainerStyle m of
                       Some c \<Rightarrow> d6\<lparr>ms_containerStyle := c\<rparr> | None \<Rightarrow> d6)
           in d7))"

subsection \<open>Container and text style arrays\<close>

definition baseContainerStyle :: "MarkingProps \<Rightarrow> ViewStyle" where
  "baseContainerStyle m = emptyStyle
     \<lparr>borderRadius := Some (orNumber (markingBorderRadius m) (Num 17)),
      overflow := Some ''hidden'',
      paddingTop := Some (Num 5)\<rparr>"

text \<open>
  The container style array. The source computes it from the marking and from the marking
  style it has computed before; \<open>containerStyleOf\<close> is that computation with the marking
  style as an argument, \<open>containerStyle\<close> supplies the marking style of the marking.
  \<^verbatim>\<open>markingStyle.containerStyle\<close> is always an object (the custom one or \<^verbatim>\<open>{}\<close>), so the
  last push happens whenever there is a marking.
\<close>

definition containerStyleOf ::
  "Sheet \<Rightarrow> DayState option \<Rightarrow> MarkingProps option \<Rightarrow> MarkingStyle \<Rightarrow> ViewStyle list" where
  "containerStyleOf sheet state marking ms =
     (let c0 = [base sheet];
          c1 = (if isToday marking state then c0 @ [todayStyle sheet] else c0)
      in case marking of
           None \<Rightarrow> c1
         | Some m \<Rightarrow>
             (let c2 = c1 @ [baseContainerStyle m];
                  c3 = (if truthyBool (isMultiPeriod m)
                        then c2 @ [emptyStyle\<lparr>backgroundColor := Some ''transparent''\<rparr>]
                        else (case (ms_startingDay ms, ms_endingDay ms) of
                                (Some start, None) \<Rightarrow>
                                  c2 @ [emptyStyle\<lparr>backgroundColor := backgroundColor start\<rparr>]
                              | (_, Some end') \<Rightarrow>
                                  c2 @ [emptyStyle\<lparr>backgroundColor := backgroundColor end'\<rparr>]
                              | (None, None) \<Rightarrow> c2))
              in c3 @ [ms_containerStyle ms]))"

definition containerStyle ::
  "Sheet \<Rightarrow> DayState option \<Rightarrow> MarkingProps option \<Rightarrow> ViewStyle list" where
  "containerStyle sheet state marking =
     containerStyleOf sheet state marking (markingStyle sheet marking)"

definition textStyle ::
  "Sheet \<Rightarrow> DayState option \<Rightarrow> MarkingProps option \<Rightarrow> TextStyle list" where
  "textStyle sheet state marking =
     (let t0 = [textBase sheet];
          t1 = (if isDisabled marking state then t0 @ [disabledText sheet]
                else if isInactive marking state then t0 @ [inactiveText sheet]
                else if isToday marking state then t0 @ [todayText sheet]
                else t0)
      in case marking of
           None \<Rightarrow> t1
         | Some m \<Rightarrow> t1 @ [ms_textStyle (markingStyle sheet marking)])"

subsection \<open>Borders of a section\<close>

text \<open>The source mutates the section in place; the model returns the section.\<close>

definition applyBorderToSection ::
  "ViewStyle \<Rightarrow> ColorValue option \<Rightarrow> ColorValue option \<Rightarrow> number \<Rightarrow> number \<Rightarrow> Borders
     \<Rightarrow> ViewStyle" where
  "applyBorderToSection sec bg bc bw br borders =
     (let s1 = (if truthyString bg then sec\<lparr>backgroundColor := bg\<rparr> else sec);
          s2 = (if truthyString bc then s1\<lparr>borderColor := bc\<rparr> else s1);
          s3 = (if topEdge borders then s2\<lparr>borderTopWidth := Some bw\<rparr> else s2);
          s4 = (if bottom borders then s3\<lparr>borderBottomWidth := Some bw\<rparr> else s3);
          s5 = (if left borders then s4\<lparr>borderLeftWidth := Some bw\<rparr> else s4);
          s6 = (if right borders then s5\<lparr>borderRightWidth := Some bw\<rparr> else s5);
          s7 = (if topLeft borders then s6\<lparr>borderTopLeftRadius := Some br\<rparr> else s6);
          s8 = (if bottomLeft borders then s7\<lparr>borderBottomLeftRadius := Some br\<rparr> else s7);
          s9 = (if topRight borders then s8\<lparr>borderTopRightRadius := Some br\<rparr> else s8);
          s10 = (if bottomRight borders then s9\<lparr>borderBottomRightRadius := Some br\<rparr> else s9)
      in s10)"

definition applyFullyClosedBorder ::
  "ViewStyle \<Rightarrow> ColorValue option \<Rightarrow> ColorValue option \<Rightarrow> number \<Rightarrow> number \<Rightarrow> ViewStyle" where
  "applyFullyClosedBorder sec bg bc bw br =
     applyBorderToSection sec bg bc bw br
       \<lparr>topEdge = True, bottom = True, left = True, right = True,
        topLeft = True, bottomLeft = True, topRight = True, bottomRight = True\<rparr>"

text \<open>The two partial border sets the handlers pass.\<close>

definition rightClosed :: Borders where
  "rightClosed = noBorders\<lparr>topEdge := True, bottom := True, right := True,
     topRight := True, bottomRight := True\<rparr>"

definition leftClosed :: Borders where
  "leftClosed = noBorders\<lparr>topEdge := True, bottom := True, left := True,
     topLeft := True, bottomLeft := True\<rparr>"

subsection \<open>Multi period handlers\<close>

definition handleTwoSectionMultiPeriod ::
  "ViewStyle \<Rightarrow> ViewStyle \<Rightarrow> MarkingProps \<Rightarrow> number \<Rightarrow> number \<Rightarrow> ViewStyle \<times> ViewStyle" where
  "handleTwoSectionMultiPeriod lfs rfs m bw br =
     (let lfs' = (if truthyBool (leftSectionIsSingleDay m)
                  then applyFullyClosedBorder lfs (leftSectionColor m)
                         (leftSectionBorderColor m) bw br
                  else applyBorderToSection lfs (leftSectionColor m)
                         (leftSectionBorderColor m) bw br rightClosed);
          rfs' = (if truthyBool (rightSectionIsSingleDay m)
                  then applyFullyClosedBorder rfs (rightSectionColor m)
                         (rightSectionBorderColor m) bw br
                  else applyBorderToSection rfs (rightSectionColor m)
                         (rightSectionBorderColor m) bw br leftClosed)
      in (lfs', rfs'))"

definition handleThreeSectionMultiPeriod ::
  "ViewStyle \<Rightarrow> ViewStyle \<Rightarrow> ViewStyle \<Rightarrow> MarkingProps \<Rightarrow> number \<Rightarrow> number
     \<Rightarrow> ViewStyle \<times> ViewStyle \<times> ViewStyle" where
  "handleThreeSectionMultiPeriod lfs mfs rfs m bw br =
     (let lfs' = applyBorderToSection lfs (leftSectionColor m)
                   (leftSectionBorderColor m) bw br rightClosed;
          mfs' = applyFullyClosedBorder mfs (middleSectionColor m)
                   (middleSectionBorderColor m) bw br;
          rfs' = applyBorderToSection rfs (rightSectionColor m)
                   (rightSectionBorderColor m) bw br leftClosed
      in (lfs', mfs', rfs'))"

definition handleFallbackMultiPeriod ::
  "ViewStyle \<Rightarrow> ViewStyle \<Rightarrow> ViewStyle \<Rightarrow> MarkingProps \<Rightarrow> number \<Rightarrow> number
     \<Rightarrow> bool \<Rightarrow> bool \<Rightarrow> bool \<Rightarrow> ViewStyle \<times> ViewStyle \<times> ViewStyle" where
  "handleFallbackMultiPeriod lfs mfs rfs m bw br hasLeft hasMiddle hasRight =
     (let lfs' = (if hasLeft
                  then (if \<not> hasMiddle \<and> \<not> hasRight
                        then applyFullyClosedBorder lfs (leftSectionColor m)
                               (leftSectionBorderColor m) bw br
                        else applyBorderToSection lfs (leftSectionColor m)
                               (leftSectionBorderColor m) bw br rightClosed)
                  else lfs);
          mfs' = (if hasMiddle
                  then applyFullyClosedBorder mfs (middleSectionColor m)
                         (middleSectionBorderColor m) bw br
                  else mfs);
          rfs' = (if hasRight
                  then (if \<not> hasMiddle \<and> \<not> hasLeft
                        then applyFullyClosedBorder rfs (rightSectionColor m)
                               (rightSectionBorderColor m) bw br
                        else applyBorderToSection rfs (rightSectionColor m)
                               (rightSectionBorderColor m) bw br leftClosed)
                  else rfs)
      in (lfs', mfs', rfs'))"

subsection \<open>Single period handler\<close>

text \<open>
  Returns the two fillers as the source leaves them and the style the source returns
  (assigned to \<^verbatim>\<open>fillerStyle\<close> by the caller).
\<close>

definition handleSinglePeriod ::
  "ViewStyle \<Rightarrow> ViewStyle \<Rightarrow> ViewStyle \<Rightarrow> MarkingStyle \<Rightarrow> number \<Rightarrow> number
     \<Rightarrow> ViewStyle \<times> ViewStyle \<times> ViewStyle" where
  "handleSinglePeriod lfs rfs fs ms bw br =
     (case (ms_startingDay ms, ms_endingDay ms) of
        (Some start, None) \<Rightarrow>
          (applyBorderToSection lfs (backgroundColor start) (borderColor start) bw br leftClosed,
           applyBorderToSection rfs (backgroundColor start) (borderColor start) bw br
             (noBorders\<lparr>topEdge := True, bottom := True\<rparr>),
           fs)
      | (None, Some end') \<Rightarrow>
          (applyBorderToSection lfs (backgroundColor end') (borderColor end') bw br
             (noBorders\<lparr>topEdge := True, bottom := True\<rparr>),
           applyBorderToSection rfs (backgroundColor end') (borderColor end') bw br rightClosed,
           fs)
      | (Some start, Some end') \<Rightarrow>
          (lfs, rfs,
           emptyStyle
             \<lparr>borderColor := orString (borderColor start) (borderColor end'),
              backgroundColor := orString (backgroundColor start) (backgroundColor end'),
              borderTopWidth := Some bw,
              borderBottomWidth := Some bw,
              borderLeftWidth := Some bw,
              borderRightWidth := Some bw,
              borderTopLeftRadius := Some br,
              borderBottomLeftRadius := Some br,
              borderTopRightRadius := Some br,
              borderBottomRightRadius := Some br\<rparr>)
      | (None, None) \<Rightarrow>
          (case ms_day ms of
             Some day \<Rightarrow>
               (lfs, rfs,
                emptyStyle
                  \<lparr>borderColor := borderColor day,
                   backgroundColor := backgroundColor day,
                   borderTopWidth := Some bw,
                   borderBottomWidth := Some bw\<rparr>)
           | None \<Rightarrow> (lfs, rfs, fs)))"

subsection \<open>The filler styles\<close>

text \<open>The local constants \<^verbatim>\<open>borderWidth\<close> and \<^verbatim>\<open>borderRadius\<close> (lines 515 and 516).\<close>

definition fillerBorderWidth :: "MarkingProps \<Rightarrow> number" where
  "fillerBorderWidth m = orNumber (borderWith m) (Num (7/10))"

definition fillerBorderRadius :: "MarkingProps \<Rightarrow> number" where
  "fillerBorderRadius m = orNumber (markingBorderRadius m) (Num 9)"

definition threeSectionFillerStyles ::
  "Sheet \<Rightarrow> MarkingProps option \<Rightarrow> ThreeSectionFillerStyles" where
  "threeSectionFillerStyles sheet marking =
     (let lfs = transparentStyle; mfs = transparentStyle; rfs = transparentStyle;
          fs = emptyStyle
      in case marking of
           None \<Rightarrow> \<lparr>leftFillerStyle = lfs, middleFillerStyle = mfs,
                    rightFillerStyle = rfs, fillerStyle = fs\<rparr>
         | Some m \<Rightarrow>
             (let bw = fillerBorderWidth m; br = fillerBorderRadius m
              in if truthyBool (isMultiPeriod m)
                 then (let hasLeft = truthyString (leftSectionColor m);
                           hasMiddle = truthyString (middleSectionColor m);
                           hasRight = truthyString (rightSectionColor m)
                       in if hasLeft \<and> hasRight \<and> \<not> hasMiddle
                          then (case handleTwoSectionMultiPeriod lfs rfs m bw br of
                                  (l, r) \<Rightarrow> \<lparr>leftFillerStyle = l, middleFillerStyle = mfs,
                                             rightFillerStyle = r, fillerStyle = fs\<rparr>)
                          else if hasLeft \<and> hasMiddle \<and> hasRight
                          then (case handleThreeSectionMultiPeriod lfs mfs rfs m bw br of
                                  (l, c, r) \<Rightarrow> \<lparr>leftFillerStyle = l, middleFillerStyle = c,
                                                rightFillerStyle = r, fillerStyle = fs\<rparr>)
                          else (case handleFallbackMultiPeriod lfs mfs rfs m bw br
                                       hasLeft hasMiddle hasRight of
                                  (l, c, r) \<Rightarrow> \<lparr>leftFillerStyle = l, middleFillerStyle = c,
                                                rightFillerStyle = r, fillerStyle = fs\<rparr>))
                 else (case handleSinglePeriod lfs rfs fs (markingStyle sheet marking) bw br of
                         (l, r, f) \<Rightarrow> \<lparr>leftFillerStyle = l, middleFillerStyle = mfs,
                                       rightFillerStyle = r, fillerStyle = f\<rparr>)))"


section \<open>Vocabulary of the specification\<close>

text \<open>
  How the rendering layer reads a style array: the entries are merged from left to right,
  a later entry that sets a key replacing what an earlier one gave. This is the rule of
  the user interface framework, not code of the component; it is what makes the order of
  the pushes in \<open>containerStyle\<close> matter.
\<close>

definition resolvedBackgroundColor :: "ViewStyle list \<Rightarrow> ColorValue option" where
  "resolvedBackgroundColor styles =
     foldl (\<lambda>acc s. case backgroundColor s of Some c \<Rightarrow> Some c | None \<Rightarrow> acc) None styles"

text \<open>A style closed on all four edges with width \<open>w\<close>, all four corners with radius \<open>r\<close>.\<close>

definition fullyClosed :: "ViewStyle \<Rightarrow> number \<Rightarrow> number \<Rightarrow> bool" where
  "fullyClosed s w r =
     (borderTopWidth s = Some w \<and> borderBottomWidth s = Some w \<and>
      borderLeftWidth s = Some w \<and> borderRightWidth s = Some w \<and>
      borderTopLeftRadius s = Some r \<and> borderBottomLeftRadius s = Some r \<and>
      borderTopRightRadius s = Some r \<and> borderBottomRightRadius s = Some r)"

text \<open>
  A style closed on its right edge only: right width and right radii set, no left width
  and no left radius. The top and bottom widths are set as well.
\<close>

definition closesOnlyRight :: "ViewStyle \<Rightarrow> number \<Rightarrow> number \<Rightarrow> bool" where
  "closesOnlyRight s w r =
     (borderTopWidth s = Some w \<and> borderBottomWidth s = Some w \<and>
      borderRightWidth s = Some w \<and> borderLeftWidth s = None \<and>
      borderTopRightRadius s = Some r \<and> borderBottomRightRadius s = Some r \<and>
      borderTopLeftRadius s = None \<and> borderBottomLeftRadius s = None)"

definition closesOnlyLeft :: "ViewStyle \<Rightarrow> number \<Rightarrow> number \<Rightarrow> bool" where
  "closesOnlyLeft s w r =
     (borderTopWidth s = Some w \<and> borderBottomWidth s = Some w \<and>
      borderLeftWidth s = Some w \<and> borderRightWidth s = None \<and>
      borderTopLeftRadius s = Some r \<and> borderBottomLeftRadius s = Some r \<and>
      borderTopRightRadius s = None \<and> borderBottomRightRadius s = None)"

text \<open>
  The precedence the specification names: the start value when it is there, the end value
  otherwise. A value is there when it is neither \<^verbatim>\<open>undefined\<close> nor the empty string.
\<close>

definition startTakesPrecedence :: "string option \<Rightarrow> string option \<Rightarrow> string option" where
  "startTakesPrecedence s e = (case s of None \<Rightarrow> e | Some v \<Rightarrow> if v = [] then e else Some v)"

text \<open>
  A style whose edge widths, where set, are all \<open>w\<close>, whose corner radii, where set, are
  all \<open>r\<close>, and which has neither of the keys \<^verbatim>\<open>borderWidth\<close> and \<^verbatim>\<open>borderRadius\<close>.
\<close>

definition usesOnly :: "ViewStyle \<Rightarrow> number \<Rightarrow> number \<Rightarrow> bool" where
  "usesOnly s w r =
     (borderTopWidth s \<in> {None, Some w} \<and> borderBottomWidth s \<in> {None, Some w} \<and>
      borderLeftWidth s \<in> {None, Some w} \<and> borderRightWidth s \<in> {None, Some w} \<and>
      borderTopLeftRadius s \<in> {None, Some r} \<and> borderBottomLeftRadius s \<in> {None, Some r} \<and>
      borderTopRightRadius s \<in> {None, Some r} \<and> borderBottomRightRadius s \<in> {None, Some r} \<and>
      borderWidth s = None \<and> borderRadius s = None)"

text \<open>The \<^verbatim>\<open>disableTouchEvent\<close> of the marking, none when there is no marking.\<close>

definition explicitDisableTouchEvent :: "MarkingProps option \<Rightarrow> bool option" where
  "explicitDisableTouchEvent marking =
     (case marking of None \<Rightarrow> None | Some m \<Rightarrow> disableTouchEvent m)"

text \<open>The text style of a marking as the specification orders it: last override first.\<close>

definition markingTextStyleSpec :: "Sheet \<Rightarrow> MarkingProps \<Rightarrow> TextStyle" where
  "markingTextStyleSpec sheet m =
     (case customTextStyle m of
        Some t \<Rightarrow> t
      | None \<Rightarrow>
          if truthyString (textColor m) then \<lparr>color = textColor m\<rparr>
          else if truthyBool (disabled m) then \<lparr>color = color (disabledText sheet)\<rparr>
          else if truthyBool (inactive m) then \<lparr>color = color (inactiveText sheet)\<rparr>
          else if truthyBool (selected m) then \<lparr>color = color (selectedText sheet)\<rparr>
          else emptyTextStyle)"

section \<open>Example inputs\<close>

definition exampleSheet :: Sheet where
  "exampleSheet =
     \<lparr>base = emptyStyle\<lparr>backgroundColor := Some ''white''\<rparr>,
      todayStyle = emptyStyle\<lparr>borderWidth := Some (Num 1)\<rparr>,
      textBase = \<lparr>color = Some ''black''\<rparr>,
      disabledText = \<lparr>color = Some ''grey''\<rparr>,
      inactiveText = \<lparr>color = Some ''silver''\<rparr>,
      selectedText = \<lparr>color = Some ''white''\<rparr>,
      todayText = \<lparr>color = Some ''blue''\<rparr>\<rparr>"

text \<open>\<^verbatim>\<open>{startingDay: true, color: '#FF0000'}\<close>\<close>

definition startMarking :: MarkingProps where
  "startMarking = emptyMarking\<lparr>startingDay := Some True, markingColor := Some ''#FF0000''\<rparr>"

text \<open>\<^verbatim>\<open>{startingDay: true, endingDay: true, color: '#FF0000'}\<close>\<close>

definition singleDayMarking :: MarkingProps where
  "singleDayMarking = emptyMarking\<lparr>startingDay := Some True, endingDay := Some True,
     markingColor := Some ''#FF0000''\<rparr>"

text \<open>\<^verbatim>\<open>{isMultiPeriod: true, leftSectionColor: '#FF0000', rightSectionColor: '#0000FF'}\<close>\<close>

definition twoSectionMarking :: MarkingProps where
  "twoSectionMarking = emptyMarking\<lparr>isMultiPeriod := Some True,
     leftSectionColor := Some ''#FF0000'', rightSectionColor := Some ''#0000FF''\<rparr>"

text \<open>The same with \<^verbatim>\<open>middleSectionColor: '#00FF00'\<close> and both single day flags set.\<close>

definition threeSectionMarking :: MarkingProps where
  "threeSectionMarking = twoSectionMarking\<lparr>middleSectionColor := Some ''#00FF00'',
     leftSectionIsSingleDay := Some True, rightSectionIsSingleDay := Some True\<rparr>"

text \<open>\<^verbatim>\<open>{isMultiPeriod: true, leftSectionColor: '#FF0000', middleSectionColor: '#00FF00'}\<close>\<close>

definition leftMiddleMarking :: MarkingProps where
  "leftMiddleMarking = emptyMarking\<lparr>isMultiPeriod := Some True,
     leftSectionColor := Some ''#FF0000'', middleSectionColor := Some ''#00FF00''\<rparr>"

text \<open>\<^verbatim>\<open>{isMultiPeriod: true, customContainerStyle: {backgroundColor: '#00FF00'}}\<close>\<close>

definition customContainerMarking :: MarkingProps where
  "customContainerMarking = emptyMarking\<lparr>isMultiPeriod := Some True,
     customContainerStyle := Some (emptyStyle\<lparr>backgroundColor := Some ''#00FF00''\<rparr>)\<rparr>"

text \<open>\<^verbatim>\<open>{disabled: true, selected: true, textColor: '#123456'}\<close>\<close>

definition textMarking :: MarkingProps where
  "textMarking = emptyMarking\<lparr>disabled := Some True, selected := Some True,
     textColor := Some ''#123456''\<rparr>"

text \<open>\<^verbatim>\<open>{startingDay: true, color: '#FF0000', borderWith: 0, borderRadius: 0}\<close>\<close>

definition zeroMarking :: MarkingProps where
  "zeroMarking = startMarking\<lparr>borderWith := Some (Num 0), markingBorderRadius := Some (Num 0)\<rparr>"

text \<open>\<open>zeroMarking\<close> in multi period mode, with three section colors.\<close>

definition zeroMultiMarking :: MarkingProps where
  "zeroMultiMarking = threeSectionMarking\<lparr>borderWith := Some (Num 0),
     markingBorderRadius := Some (Num 0)\<rparr>"

text \<open>
  A marking style whose start and end styles differ: the start style has a background and
  no border color, the end style has another background and a border color.
\<close>

definition mixedMarkingStyle :: MarkingStyle where
  "mixedMarkingStyle = defaultStyle
     \<lparr>ms_startingDay := Some (emptyStyle\<lparr>backgroundColor := Some ''#FF0000''\<rparr>),
      ms_endingDay := Some (emptyStyle\<lparr>backgroundColor := Some ''#0000FF'',
                                      borderColor := Some ''#00FF00''\<rparr>)\<rparr>"

text \<open>The same with the empty string as background of the start style.\<close>

definition emptyStartMarkingStyle :: MarkingStyle where
  "emptyStartMarkingStyle = defaultStyle
     \<lparr>ms_startingDay := Some (emptyStyle\<lparr>backgroundColor := Some []\<rparr>),
      ms_endingDay := Some (emptyStyle\<lparr>backgroundColor := Some ''#0000FF'',
                                      borderColor := Some ''#00FF00''\<rparr>)\<rparr>"

section \<open>Auxiliary facts\<close>

lemma orNumber_nonzero: "d \<noteq> Num 0 \<Longrightarrow> orNumber a d \<noteq> Num 0"
  by (cases a rule: truthyNumber.cases) (simp_all add: orNumber_def)

lemma orNumber_zero: "orNumber (Some (Num 0)) d = d"
  by (simp add: orNumber_def)

lemma orNumber_None: "orNumber None d = d"
  by (simp add: orNumber_def)

lemma fillerBorderWidth_nonzero: "fillerBorderWidth m \<noteq> Num 0"
  by (simp add: fillerBorderWidth_def orNumber_nonzero)

lemma fillerBorderRadius_nonzero: "fillerBorderRadius m \<noteq> Num 0"
  by (simp add: fillerBorderRadius_def orNumber_nonzero)

lemma fullyClosed_applyFullyClosedBorder:
  "fullyClosed (applyFullyClosedBorder s bg bc w r) w r"
  by (simp add: fullyClosed_def applyFullyClosedBorder_def applyBorderToSection_def Let_def)

lemma closesOnlyRight_apply:
  "closesOnlyRight (applyBorderToSection transparentStyle bg bc w r rightClosed) w r"
  by (simp add: closesOnlyRight_def applyBorderToSection_def rightClosed_def noBorders_def
      transparentStyle_def emptyStyle_def Let_def)

lemma closesOnlyLeft_apply:
  "closesOnlyLeft (applyBorderToSection transparentStyle bg bc w r leftClosed) w r"
  by (simp add: closesOnlyLeft_def applyBorderToSection_def leftClosed_def noBorders_def
      transparentStyle_def emptyStyle_def Let_def)

lemma backgroundColor_apply:
  "backgroundColor (applyBorderToSection s bg bc w r b) =
     (if truthyString bg then bg else backgroundColor s)"
  by (simp add: applyBorderToSection_def Let_def)

lemma borderColor_apply:
  "borderColor (applyBorderToSection s bg bc w r b) =
     (if truthyString bc then bc else borderColor s)"
  by (simp add: applyBorderToSection_def Let_def)

lemma markingStyle_startingDay:
  "ms_startingDay (markingStyle sheet (Some m)) =
     (if truthyBool (startingDay m) then Some (periodEdgeStyle m) else None)"
  by (simp add: markingStyle_def defaultStyle_def Let_def split: option.splits)

lemma markingStyle_endingDay:
  "ms_endingDay (markingStyle sheet (Some m)) =
     (if truthyBool (endingDay m) then Some (periodEdgeStyle m) else None)"
  by (simp add: markingStyle_def defaultStyle_def Let_def split: option.splits)

lemma markingStyle_day:
  "ms_day (markingStyle sheet (Some m)) =
     (if \<not> truthyBool (startingDay m) \<and> \<not> truthyBool (endingDay m)
      then Some (periodDayStyle m) else None)"
  by (simp add: markingStyle_def defaultStyle_def Let_def split: option.splits)

lemma markingStyle_containerStyle:
  "ms_containerStyle (markingStyle sheet (Some m)) =
     (case customContainerStyle m of Some c \<Rightarrow> c | None \<Rightarrow> emptyStyle)"
  by (simp add: markingStyle_def defaultStyle_def Let_def split: option.splits)

lemma backgroundColor_closed:
  "backgroundColor (applyFullyClosedBorder s bg bc w r) =
     (if truthyString bg then bg else backgroundColor s)"
  by (simp add: applyFullyClosedBorder_def backgroundColor_apply)

lemma threeSection_two:
  assumes "truthyBool (isMultiPeriod m)"
    and "truthyString (leftSectionColor m)" and "truthyString (rightSectionColor m)"
    and "\<not> truthyString (middleSectionColor m)"
  shows "threeSectionFillerStyles sheet (Some m) =
     \<lparr>leftFillerStyle =
        fst (handleTwoSectionMultiPeriod transparentStyle transparentStyle m
               (fillerBorderWidth m) (fillerBorderRadius m)),
      middleFillerStyle = transparentStyle,
      rightFillerStyle =
        snd (handleTwoSectionMultiPeriod transparentStyle transparentStyle m
               (fillerBorderWidth m) (fillerBorderRadius m)),
      fillerStyle = emptyStyle\<rparr>"
  using assms by (simp add: threeSectionFillerStyles_def Let_def split: prod.splits)

lemma threeSection_three:
  assumes "truthyBool (isMultiPeriod m)"
    and "truthyString (leftSectionColor m)" and "truthyString (middleSectionColor m)"
    and "truthyString (rightSectionColor m)"
  shows "threeSectionFillerStyles sheet (Some m) =
     \<lparr>leftFillerStyle =
        applyBorderToSection transparentStyle (leftSectionColor m) (leftSectionBorderColor m)
          (fillerBorderWidth m) (fillerBorderRadius m) rightClosed,
      middleFillerStyle =
        applyFullyClosedBorder transparentStyle (middleSectionColor m)
          (middleSectionBorderColor m) (fillerBorderWidth m) (fillerBorderRadius m),
      rightFillerStyle =
        applyBorderToSection transparentStyle (rightSectionColor m) (rightSectionBorderColor m)
          (fillerBorderWidth m) (fillerBorderRadius m) leftClosed,
      fillerStyle = emptyStyle\<rparr>"
  using assms
  by (simp add: threeSectionFillerStyles_def handleThreeSectionMultiPeriod_def Let_def)

lemma threeSection_fallback:
  assumes "truthyBool (isMultiPeriod m)"
    and "\<not> (truthyString (leftSectionColor m) \<and> truthyString (rightSectionColor m)
            \<and> \<not> truthyString (middleSectionColor m))"
    and "\<not> (truthyString (leftSectionColor m) \<and> truthyString (middleSectionColor m)
            \<and> truthyString (rightSectionColor m))"
  shows "threeSectionFillerStyles sheet (Some m) =
     (case handleFallbackMultiPeriod transparentStyle transparentStyle transparentStyle m
             (fillerBorderWidth m) (fillerBorderRadius m)
             (truthyString (leftSectionColor m)) (truthyString (middleSectionColor m))
             (truthyString (rightSectionColor m)) of
        (l, c, r) \<Rightarrow> \<lparr>leftFillerStyle = l, middleFillerStyle = c,
                      rightFillerStyle = r, fillerStyle = emptyStyle\<rparr>)"
  using assms by (auto simp add: threeSectionFillerStyles_def Let_def)

lemma threeSection_single:
  assumes "\<not> truthyBool (isMultiPeriod m)"
  shows "threeSectionFillerStyles sheet (Some m) =
     (case handleSinglePeriod transparentStyle transparentStyle emptyStyle
             (markingStyle sheet (Some m)) (fillerBorderWidth m) (fillerBorderRadius m) of
        (l, r, f) \<Rightarrow> \<lparr>leftFillerStyle = l, middleFillerStyle = transparentStyle,
                      rightFillerStyle = r, fillerStyle = f\<rparr>)"
  using assms by (simp add: threeSectionFillerStyles_def Let_def)

lemma handleSinglePeriod_both:
  assumes "ms_startingDay ms = Some start" and "ms_endingDay ms = Some end'"
  shows "handleSinglePeriod lfs rfs fs ms bw br =
     (lfs, rfs,
      emptyStyle
        \<lparr>borderColor := orString (borderColor start) (borderColor end'),
         backgroundColor := orString (backgroundColor start) (backgroundColor end'),
         borderTopWidth := Some bw, borderBottomWidth := Some bw,
         borderLeftWidth := Some bw, borderRightWidth := Some bw,
         borderTopLeftRadius := Some br, borderBottomLeftRadius := Some br,
         borderTopRightRadius := Some br, borderBottomRightRadius := Some br\<rparr>)"
  using assms by (simp add: handleSinglePeriod_def)

lemma containerStyle_marking:
  "containerStyle sheet state (Some m) =
     (if isToday (Some m) state then [base sheet, todayStyle sheet] else [base sheet]) @
     [baseContainerStyle m] @
     (if truthyBool (isMultiPeriod m)
      then [emptyStyle\<lparr>backgroundColor := Some ''transparent''\<rparr>]
      else if truthyBool (endingDay m)
      then [emptyStyle\<lparr>backgroundColor := backgroundColor (periodEdgeStyle m)\<rparr>]
      else if truthyBool (startingDay m)
      then [emptyStyle\<lparr>backgroundColor := backgroundColor (periodEdgeStyle m)\<rparr>]
      else []) @
     [case customContainerStyle m of Some c \<Rightarrow> c | None \<Rightarrow> emptyStyle]"
  by (simp add: containerStyle_def containerStyleOf_def Let_def markingStyle_startingDay
      markingStyle_endingDay
      markingStyle_containerStyle)

lemma resolvedBackgroundColor_snoc:
  "resolvedBackgroundColor (xs @ [s]) =
     (case backgroundColor s of Some c \<Rightarrow> Some c | None \<Rightarrow> resolvedBackgroundColor xs)"
  by (simp add: resolvedBackgroundColor_def split: option.splits)

text \<open>A falsy width or radius on the marking reads as a missing one.\<close>

lemma periodEdgeStyle_width:
  "\<not> truthyNumber (borderWith m) \<Longrightarrow>
     periodEdgeStyle (m\<lparr>borderWith := None\<rparr>) = periodEdgeStyle m"
  by (cases "borderWith m" rule: truthyNumber.cases)
    (simp_all add: periodEdgeStyle_def orNumber_def)

lemma periodDayStyle_width:
  "\<not> truthyNumber (borderWith m) \<Longrightarrow>
     periodDayStyle (m\<lparr>borderWith := None\<rparr>) = periodDayStyle m"
  by (cases "borderWith m" rule: truthyNumber.cases)
    (simp_all add: periodDayStyle_def orNumber_def)

lemma markingStyle_width:
  "\<not> truthyNumber (borderWith m) \<Longrightarrow>
     markingStyle sheet (Some (m\<lparr>borderWith := None\<rparr>)) = markingStyle sheet (Some m)"
  by (simp add: markingStyle_def periodEdgeStyle_width periodDayStyle_width Let_def
      split del: if_split cong: if_cong option.case_cong)

lemma handlers_width:
  "handleTwoSectionMultiPeriod l r (m\<lparr>borderWith := x\<rparr>) bw br
     = handleTwoSectionMultiPeriod l r m bw br"
  "handleThreeSectionMultiPeriod l c r (m\<lparr>borderWith := x\<rparr>) bw br
     = handleThreeSectionMultiPeriod l c r m bw br"
  "handleFallbackMultiPeriod l c r (m\<lparr>borderWith := x\<rparr>) bw br hl hm hr
     = handleFallbackMultiPeriod l c r m bw br hl hm hr"
  by (simp_all add: handleTwoSectionMultiPeriod_def handleThreeSectionMultiPeriod_def
      handleFallbackMultiPeriod_def)

lemma filler_numbers_width:
  "\<not> truthyNumber (borderWith m) \<Longrightarrow>
     fillerBorderWidth (m\<lparr>borderWith := None\<rparr>) = fillerBorderWidth m"
  "fillerBorderRadius (m\<lparr>borderWith := x\<rparr>) = fillerBorderRadius m"
  by (cases "borderWith m" rule: truthyNumber.cases)
    (simp_all add: fillerBorderWidth_def fillerBorderRadius_def orNumber_def)

lemma threeSection_width:
  "\<not> truthyNumber (borderWith m) \<Longrightarrow>
     threeSectionFillerStyles sheet (Some (m\<lparr>borderWith := None\<rparr>))
       = threeSectionFillerStyles sheet (Some m)"
  by (simp add: threeSectionFillerStyles_def markingStyle_width handlers_width
      filler_numbers_width Let_def split del: if_split cong: if_cong)

lemma container_width:
  "\<not> truthyNumber (borderWith m) \<Longrightarrow>
     containerStyle sheet state (Some (m\<lparr>borderWith := None\<rparr>))
       = containerStyle sheet state (Some m)"
  by (simp add: containerStyle_def containerStyleOf_def markingStyle_width
      baseContainerStyle_def isToday_def
      Let_def split del: if_split cong: if_cong)

lemma periodEdgeStyle_radius:
  "\<not> truthyNumber (markingBorderRadius m) \<Longrightarrow>
     periodEdgeStyle (m\<lparr>markingBorderRadius := None\<rparr>) = periodEdgeStyle m"
  by (cases "markingBorderRadius m" rule: truthyNumber.cases)
    (simp_all add: periodEdgeStyle_def orNumber_def)

lemma periodDayStyle_radius:
  "periodDayStyle (m\<lparr>markingBorderRadius := x\<rparr>) = periodDayStyle m"
  by (simp add: periodDayStyle_def)

lemma markingStyle_radius:
  "\<not> truthyNumber (markingBorderRadius m) \<Longrightarrow>
     markingStyle sheet (Some (m\<lparr>markingBorderRadius := None\<rparr>))
       = markingStyle sheet (Some m)"
  by (simp add: markingStyle_def periodEdgeStyle_radius periodDayStyle_radius Let_def
      split del: if_split cong: if_cong option.case_cong)

lemma handlers_radius:
  "handleTwoSectionMultiPeriod l r (m\<lparr>markingBorderRadius := x\<rparr>) bw br
     = handleTwoSectionMultiPeriod l r m bw br"
  "handleThreeSectionMultiPeriod l c r (m\<lparr>markingBorderRadius := x\<rparr>) bw br
     = handleThreeSectionMultiPeriod l c r m bw br"
  "handleFallbackMultiPeriod l c r (m\<lparr>markingBorderRadius := x\<rparr>) bw br hl hm hr
     = handleFallbackMultiPeriod l c r m bw br hl hm hr"
  by (simp_all add: handleTwoSectionMultiPeriod_def handleThreeSectionMultiPeriod_def
      handleFallbackMultiPeriod_def)

lemma filler_numbers_radius:
  "\<not> truthyNumber (markingBorderRadius m) \<Longrightarrow>
     fillerBorderRadius (m\<lparr>markingBorderRadius := None\<rparr>) = fillerBorderRadius m"
  "fillerBorderWidth (m\<lparr>markingBorderRadius := x\<rparr>) = fillerBorderWidth m"
  by (cases "markingBorderRadius m" rule: truthyNumber.cases)
    (simp_all add: fillerBorderWidth_def fillerBorderRadius_def orNumber_def)

lemma baseContainerStyle_radius:
  "\<not> truthyNumber (markingBorderRadius m) \<Longrightarrow>
     baseContainerStyle (m\<lparr>markingBorderRadius := None\<rparr>) = baseContainerStyle m"
  by (cases "markingBorderRadius m" rule: truthyNumber.cases)
    (simp_all add: baseContainerStyle_def orNumber_def)

lemma threeSection_radius:
  "\<not> truthyNumber (markingBorderRadius m) \<Longrightarrow>
     threeSectionFillerStyles sheet (Some (m\<lparr>markingBorderRadius := None\<rparr>))
       = threeSectionFillerStyles sheet (Some m)"
  by (simp add: threeSectionFillerStyles_def markingStyle_radius handlers_radius
      filler_numbers_radius Let_def split del: if_split cong: if_cong)

lemma container_radius:
  "\<not> truthyNumber (markingBorderRadius m) \<Longrightarrow>
     containerStyle sheet state (Some (m\<lparr>markingBorderRadius := None\<rparr>))
       = containerStyle sheet state (Some m)"
  by (simp add: containerStyle_def containerStyleOf_def markingStyle_radius
      baseContainerStyle_radius isToday_def
      Let_def split del: if_split cong: if_cong)

text \<open>What \<open>applyBorderToSection\<close> does to each key.\<close>

lemma apply_widths:
  "borderTopWidth (applyBorderToSection s bg bc w r b)
     = (if topEdge b then Some w else borderTopWidth s)"
  "borderBottomWidth (applyBorderToSection s bg bc w r b)
     = (if bottom b then Some w else borderBottomWidth s)"
  "borderLeftWidth (applyBorderToSection s bg bc w r b)
     = (if left b then Some w else borderLeftWidth s)"
  "borderRightWidth (applyBorderToSection s bg bc w r b)
     = (if right b then Some w else borderRightWidth s)"
  by (simp_all add: applyBorderToSection_def Let_def)

lemma apply_radii:
  "borderTopLeftRadius (applyBorderToSection s bg bc w r b)
     = (if topLeft b then Some r else borderTopLeftRadius s)"
  "borderBottomLeftRadius (applyBorderToSection s bg bc w r b)
     = (if bottomLeft b then Some r else borderBottomLeftRadius s)"
  "borderTopRightRadius (applyBorderToSection s bg bc w r b)
     = (if topRight b then Some r else borderTopRightRadius s)"
  "borderBottomRightRadius (applyBorderToSection s bg bc w r b)
     = (if bottomRight b then Some r else borderBottomRightRadius s)"
  by (simp_all add: applyBorderToSection_def Let_def)

lemma apply_shorthands:
  "borderWidth (applyBorderToSection s bg bc w r b) = borderWidth s"
  "borderRadius (applyBorderToSection s bg bc w r b) = borderRadius s"
  by (simp_all add: applyBorderToSection_def Let_def)

lemma usesOnly_apply:
  assumes "usesOnly s w r"
  shows "usesOnly (applyBorderToSection s bg bc w r b) w r"
  using assms unfolding usesOnly_def apply_widths apply_radii apply_shorthands
  by (intro conjI) simp_all

lemma usesOnly_closed:
  "usesOnly s w r \<Longrightarrow> usesOnly (applyFullyClosedBorder s bg bc w r) w r"
  by (simp add: applyFullyClosedBorder_def usesOnly_apply)

lemma usesOnly_transparent: "usesOnly transparentStyle w r"
  by (simp add: usesOnly_def transparentStyle_def emptyStyle_def)

lemma usesOnly_empty: "usesOnly emptyStyle w r"
  by (simp add: usesOnly_def emptyStyle_def)

lemma usesOnly_two:
  assumes "usesOnly l w r" and "usesOnly rr w r"
    and "handleTwoSectionMultiPeriod l rr m w r = (a, b)"
  shows "usesOnly a w r \<and> usesOnly b w r"
  using assms
  by (auto simp add: handleTwoSectionMultiPeriod_def Let_def usesOnly_apply usesOnly_closed
      split: if_splits)

lemma usesOnly_three:
  assumes "usesOnly l w r" and "usesOnly c w r" and "usesOnly rr w r"
    and "handleThreeSectionMultiPeriod l c rr m w r = (a, b, d)"
  shows "usesOnly a w r \<and> usesOnly b w r \<and> usesOnly d w r"
  using assms
  by (auto simp add: handleThreeSectionMultiPeriod_def Let_def usesOnly_apply usesOnly_closed)

lemma usesOnly_fallback:
  assumes "usesOnly l w r" and "usesOnly c w r" and "usesOnly rr w r"
    and "handleFallbackMultiPeriod l c rr m w r hl hm hr = (a, b, d)"
  shows "usesOnly a w r \<and> usesOnly b w r \<and> usesOnly d w r"
  using assms
  by (auto simp add: handleFallbackMultiPeriod_def Let_def usesOnly_apply usesOnly_closed
      split: if_splits)

lemma usesOnly_single:
  assumes "usesOnly l w r" and "usesOnly rr w r" and "usesOnly f w r"
    and "handleSinglePeriod l rr f ms w r = (a, b, d)"
  shows "usesOnly a w r \<and> usesOnly b w r \<and> usesOnly d w r"
proof (cases "ms_startingDay ms")
  case None
  note s = this
  show ?thesis
  proof (cases "ms_endingDay ms")
    case None
    show ?thesis
    proof (cases "ms_day ms")
      case None
      then show ?thesis
        using assms s \<open>ms_endingDay ms = None\<close> by (simp add: handleSinglePeriod_def)
    next
      case (Some day)
      then have "a = l" "b = rr"
        "d = emptyStyle\<lparr>borderColor := borderColor day,
               backgroundColor := backgroundColor day,
               borderTopWidth := Some w, borderBottomWidth := Some w\<rparr>"
        using assms(4) s \<open>ms_endingDay ms = None\<close> by (auto simp add: handleSinglePeriod_def)
      then show ?thesis
        using assms(1,2) by (simp add: usesOnly_def emptyStyle_def)
    qed
  next
    case (Some e)
    then show ?thesis
      using assms s by (auto simp add: handleSinglePeriod_def usesOnly_apply)
  qed
next
  case (Some st)
  note s = this
  show ?thesis
  proof (cases "ms_endingDay ms")
    case None
    then show ?thesis
      using assms s by (auto simp add: handleSinglePeriod_def usesOnly_apply)
  next
    case (Some e)
    have "a = l" "b = rr" "usesOnly d w r"
      using assms(4) by (auto simp add: handleSinglePeriod_both [OF s Some] usesOnly_def
          emptyStyle_def)
    then show ?thesis
      using assms(1,2) by simp
  qed
qed

lemma threeSection_usesOnly:
  "usesOnly (leftFillerStyle (threeSectionFillerStyles sheet (Some m)))
     (fillerBorderWidth m) (fillerBorderRadius m)
   \<and> usesOnly (middleFillerStyle (threeSectionFillerStyles sheet (Some m)))
     (fillerBorderWidth m) (fillerBorderRadius m)
   \<and> usesOnly (rightFillerStyle (threeSectionFillerStyles sheet (Some m)))
     (fillerBorderWidth m) (fillerBorderRadius m)
   \<and> usesOnly (fillerStyle (threeSectionFillerStyles sheet (Some m)))
     (fillerBorderWidth m) (fillerBorderRadius m)"
proof -
  let ?w = "fillerBorderWidth m" and ?r = "fillerBorderRadius m"
  note t = usesOnly_transparent [of ?w ?r] and e = usesOnly_empty [of ?w ?r]
  show ?thesis
  proof (cases "truthyBool (isMultiPeriod m)")
    case False
    obtain a b d where h: "handleSinglePeriod transparentStyle transparentStyle emptyStyle
        (markingStyle sheet (Some m)) ?w ?r = (a, b, d)"
      by (cases "handleSinglePeriod transparentStyle transparentStyle emptyStyle
        (markingStyle sheet (Some m)) ?w ?r") auto
    show ?thesis
      using usesOnly_single [OF t t e h] t by (simp add: threeSection_single [OF False] h)
  next
    case True
    note mp = this
    show ?thesis
    proof (cases "truthyString (leftSectionColor m) \<and> truthyString (rightSectionColor m)
        \<and> \<not> truthyString (middleSectionColor m)")
      case True
      obtain a b where h: "handleTwoSectionMultiPeriod transparentStyle transparentStyle m
          ?w ?r = (a, b)"
        by (cases "handleTwoSectionMultiPeriod transparentStyle transparentStyle m ?w ?r") auto
      show ?thesis
        using usesOnly_two [OF t t h] t e True
        by (simp add: threeSection_two [OF mp] h)
    next
      case False
      note two = this
      show ?thesis
      proof (cases "truthyString (leftSectionColor m) \<and> truthyString (middleSectionColor m)
          \<and> truthyString (rightSectionColor m)")
        case True
        then show ?thesis
          using t e
          by (simp add: threeSection_three [OF mp] usesOnly_apply usesOnly_closed)
      next
        case False
        obtain a b d where h: "handleFallbackMultiPeriod transparentStyle transparentStyle
            transparentStyle m ?w ?r (truthyString (leftSectionColor m))
            (truthyString (middleSectionColor m)) (truthyString (rightSectionColor m))
              = (a, b, d)"
          by (cases "handleFallbackMultiPeriod transparentStyle transparentStyle
            transparentStyle m ?w ?r (truthyString (leftSectionColor m))
            (truthyString (middleSectionColor m)) (truthyString (rightSectionColor m))") auto
        show ?thesis
          using usesOnly_fallback [OF t t t h] e
          by (simp add: threeSection_fallback [OF mp two False] h)
      qed
    qed
  qed
qed

text \<open>Where the width and the radius go, shape by shape.\<close>

lemma single_start_only:
  assumes "\<not> truthyBool (isMultiPeriod m)"
    and "truthyBool (startingDay m)" and "\<not> truthyBool (endingDay m)"
  shows "closesOnlyLeft (leftFillerStyle (threeSectionFillerStyles sheet (Some m)))
           (fillerBorderWidth m) (fillerBorderRadius m)"
  using assms
  by (simp add: threeSection_single handleSinglePeriod_def markingStyle_startingDay
      markingStyle_endingDay closesOnlyLeft_apply)

lemma single_end_only:
  assumes "\<not> truthyBool (isMultiPeriod m)"
    and "\<not> truthyBool (startingDay m)" and "truthyBool (endingDay m)"
  shows "closesOnlyRight (rightFillerStyle (threeSectionFillerStyles sheet (Some m)))
           (fillerBorderWidth m) (fillerBorderRadius m)"
  using assms
  by (simp add: threeSection_single handleSinglePeriod_def markingStyle_startingDay
      markingStyle_endingDay closesOnlyRight_apply)

lemma single_both:
  assumes "\<not> truthyBool (isMultiPeriod m)"
    and "truthyBool (startingDay m)" and "truthyBool (endingDay m)"
  shows "fullyClosed (fillerStyle (threeSectionFillerStyles sheet (Some m)))
           (fillerBorderWidth m) (fillerBorderRadius m)"
  using assms
  by (simp add: threeSection_single handleSinglePeriod_def markingStyle_startingDay
      markingStyle_endingDay fullyClosed_def emptyStyle_def)

lemma single_neither:
  assumes "\<not> truthyBool (isMultiPeriod m)"
    and "\<not> truthyBool (startingDay m)" and "\<not> truthyBool (endingDay m)"
  shows "borderTopWidth (fillerStyle (threeSectionFillerStyles sheet (Some m)))
           = Some (fillerBorderWidth m)
       \<and> borderBottomWidth (fillerStyle (threeSectionFillerStyles sheet (Some m)))
           = Some (fillerBorderWidth m)"
  using assms
  by (simp add: threeSection_single handleSinglePeriod_def markingStyle_startingDay
      markingStyle_endingDay markingStyle_day emptyStyle_def)

lemma multi_left:
  assumes "truthyBool (isMultiPeriod m)" and "truthyString (leftSectionColor m)"
  shows "borderRightWidth (leftFillerStyle (threeSectionFillerStyles sheet (Some m)))
           = Some (fillerBorderWidth m)
       \<and> borderTopRightRadius (leftFillerStyle (threeSectionFillerStyles sheet (Some m)))
           = Some (fillerBorderRadius m)
       \<and> borderBottomRightRadius (leftFillerStyle (threeSectionFillerStyles sheet (Some m)))
           = Some (fillerBorderRadius m)"
proof -
  consider (two) "truthyString (rightSectionColor m)" "\<not> truthyString (middleSectionColor m)"
    | (three) "truthyString (middleSectionColor m)" "truthyString (rightSectionColor m)"
    | (other) "\<not> truthyString (rightSectionColor m)"
    by blast
  then show ?thesis
  proof cases
    case two
    then show ?thesis
      using assms
      by (simp add: threeSection_two handleTwoSectionMultiPeriod_def Let_def
          applyFullyClosedBorder_def apply_widths apply_radii rightClosed_def noBorders_def)
  next
    case three
    then show ?thesis
      using assms
      by (simp add: threeSection_three apply_widths apply_radii rightClosed_def
          noBorders_def)
  next
    case other
    then show ?thesis
      using assms
      by (simp add: threeSection_fallback handleFallbackMultiPeriod_def Let_def
          applyFullyClosedBorder_def apply_widths apply_radii rightClosed_def noBorders_def)
  qed
qed

lemma multi_middle:
  assumes "truthyBool (isMultiPeriod m)" and "truthyString (middleSectionColor m)"
  shows "fullyClosed (middleFillerStyle (threeSectionFillerStyles sheet (Some m)))
           (fillerBorderWidth m) (fillerBorderRadius m)"
proof (cases "truthyString (leftSectionColor m) \<and> truthyString (rightSectionColor m)")
  case True
  then show ?thesis
    using assms by (simp add: threeSection_three fullyClosed_applyFullyClosedBorder)
next
  case False
  then show ?thesis
    using assms
    by (simp add: threeSection_fallback handleFallbackMultiPeriod_def Let_def
        fullyClosed_applyFullyClosedBorder)
qed

lemma multi_right:
  assumes "truthyBool (isMultiPeriod m)" and "truthyString (rightSectionColor m)"
  shows "borderLeftWidth (rightFillerStyle (threeSectionFillerStyles sheet (Some m)))
           = Some (fillerBorderWidth m)
       \<and> borderTopLeftRadius (rightFillerStyle (threeSectionFillerStyles sheet (Some m)))
           = Some (fillerBorderRadius m)
       \<and> borderBottomLeftRadius (rightFillerStyle (threeSectionFillerStyles sheet (Some m)))
           = Some (fillerBorderRadius m)"
proof -
  consider (two) "truthyString (leftSectionColor m)" "\<not> truthyString (middleSectionColor m)"
    | (three) "truthyString (leftSectionColor m)" "truthyString (middleSectionColor m)"
    | (other) "\<not> truthyString (leftSectionColor m)"
    by blast
  then show ?thesis
  proof cases
    case two
    then show ?thesis
      using assms
      by (simp add: threeSection_two handleTwoSectionMultiPeriod_def Let_def
          applyFullyClosedBorder_def apply_widths apply_radii leftClosed_def noBorders_def)
  next
    case three
    then show ?thesis
      using assms
      by (simp add: threeSection_three apply_widths apply_radii leftClosed_def noBorders_def)
  next
    case other
    then show ?thesis
      using assms
      by (simp add: threeSection_fallback handleFallbackMultiPeriod_def Let_def
          applyFullyClosedBorder_def apply_widths apply_radii leftClosed_def noBorders_def)
  qed
qed

lemma containerStyle_base_entry:
  "containerStyle sheet state (Some m) ! (if isToday (Some m) state then 2 else 1)
     = baseContainerStyle m"
  by (simp add: containerStyle_marking)

lemma containerStyleOf_single:
  assumes "\<not> truthyBool (isMultiPeriod m)" and "ms_endingDay ms = Some end'"
  shows "containerStyleOf sheet state (Some m) ms =
     (if isToday (Some m) state then [base sheet, todayStyle sheet] else [base sheet]) @
     [baseContainerStyle m, emptyStyle\<lparr>backgroundColor := backgroundColor end'\<rparr>,
      ms_containerStyle ms]"
  using assms by (simp add: containerStyleOf_def Let_def split: option.splits)

lemma orString_precedence: "orString a b = startTakesPrecedence a b"
  by (cases a) (simp_all add: orString_def startTakesPrecedence_def)

section \<open>The claims\<close>

text \<open>
  C4. In multi period mode with a left and a right section color and no middle one, and
  neither single day flag set: the left filler closes only its right edge (top, bottom
  and right width, right radii, no left width or left radius), the right filler closes
  only its left edge, and the middle filler stays \<^verbatim>\<open>{backgroundColor: 'transparent'}\<close>.
  A color is present when it is truthy, as \<^verbatim>\<open>hasLeft\<close>, \<^verbatim>\<open>hasMiddle\<close> and
  \<^verbatim>\<open>hasRight\<close> have it; a flag that is missing counts as false. The width and the
  radius are never zero.
\<close>

theorem C4_two_sections_close_inner_edges:
  assumes "truthyBool (isMultiPeriod m)"
    and "truthyString (leftSectionColor m)" and "truthyString (rightSectionColor m)"
    and "\<not> truthyString (middleSectionColor m)"
    and "\<not> truthyBool (leftSectionIsSingleDay m)"
    and "\<not> truthyBool (rightSectionIsSingleDay m)"
  shows "closesOnlyRight (leftFillerStyle (threeSectionFillerStyles sheet (Some m)))
           (fillerBorderWidth m) (fillerBorderRadius m)
       \<and> closesOnlyLeft (rightFillerStyle (threeSectionFillerStyles sheet (Some m)))
           (fillerBorderWidth m) (fillerBorderRadius m)
       \<and> middleFillerStyle (threeSectionFillerStyles sheet (Some m)) = transparentStyle
       \<and> backgroundColor (leftFillerStyle (threeSectionFillerStyles sheet (Some m)))
           = leftSectionColor m
       \<and> backgroundColor (rightFillerStyle (threeSectionFillerStyles sheet (Some m)))
           = rightSectionColor m
       \<and> fillerBorderWidth m \<noteq> Num 0 \<and> fillerBorderRadius m \<noteq> Num 0"
proof -
  have "threeSectionFillerStyles sheet (Some m) =
     \<lparr>leftFillerStyle =
        applyBorderToSection transparentStyle (leftSectionColor m) (leftSectionBorderColor m)
          (fillerBorderWidth m) (fillerBorderRadius m) rightClosed,
      middleFillerStyle = transparentStyle,
      rightFillerStyle =
        applyBorderToSection transparentStyle (rightSectionColor m) (rightSectionBorderColor m)
          (fillerBorderWidth m) (fillerBorderRadius m) leftClosed,
      fillerStyle = emptyStyle\<rparr>"
    using assms by (simp add: threeSection_two handleTwoSectionMultiPeriod_def Let_def)
  then show ?thesis
    using assms(2,3)
    by (simp add: closesOnlyRight_apply closesOnlyLeft_apply backgroundColor_apply
        fillerBorderWidth_nonzero fillerBorderRadius_nonzero)
qed

theorem C4_witness:
  "truthyBool (isMultiPeriod twoSectionMarking)
   \<and> truthyString (leftSectionColor twoSectionMarking)
   \<and> truthyString (rightSectionColor twoSectionMarking)
   \<and> \<not> truthyString (middleSectionColor twoSectionMarking)
   \<and> \<not> truthyBool (leftSectionIsSingleDay twoSectionMarking)
   \<and> \<not> truthyBool (rightSectionIsSingleDay twoSectionMarking)
   \<and> closesOnlyRight (leftFillerStyle (threeSectionFillerStyles exampleSheet
         (Some twoSectionMarking))) (Num (7/10)) (Num 9)
   \<and> closesOnlyLeft (rightFillerStyle (threeSectionFillerStyles exampleSheet
         (Some twoSectionMarking))) (Num (7/10)) (Num 9)
   \<and> middleFillerStyle (threeSectionFillerStyles exampleSheet (Some twoSectionMarking))
         = transparentStyle"
proof -
  have h: "truthyBool (isMultiPeriod twoSectionMarking)"
    "truthyString (leftSectionColor twoSectionMarking)"
    "truthyString (rightSectionColor twoSectionMarking)"
    "\<not> truthyString (middleSectionColor twoSectionMarking)"
    "\<not> truthyBool (leftSectionIsSingleDay twoSectionMarking)"
    "\<not> truthyBool (rightSectionIsSingleDay twoSectionMarking)"
    by (simp_all add: twoSectionMarking_def emptyMarking_def)
  have w: "fillerBorderWidth twoSectionMarking = Num (7/10)"
    "fillerBorderRadius twoSectionMarking = Num 9"
    by (simp_all add: fillerBorderWidth_def fillerBorderRadius_def orNumber_def
        twoSectionMarking_def emptyMarking_def)
  show ?thesis
    using C4_two_sections_close_inner_edges [OF h, of exampleSheet] h by (simp add: w)
qed

text \<open>
  C5. In multi period mode with all three section colors present, the left filler closes
  only its right edge, the middle filler is closed on all four edges and corners, and the
  right filler closes only its left edge, whatever the two single day flags are.
\<close>

theorem C5_three_sections:
  assumes "truthyBool (isMultiPeriod m)"
    and "truthyString (leftSectionColor m)" and "truthyString (middleSectionColor m)"
    and "truthyString (rightSectionColor m)"
  shows "closesOnlyRight (leftFillerStyle (threeSectionFillerStyles sheet (Some m)))
           (fillerBorderWidth m) (fillerBorderRadius m)
       \<and> fullyClosed (middleFillerStyle (threeSectionFillerStyles sheet (Some m)))
           (fillerBorderWidth m) (fillerBorderRadius m)
       \<and> closesOnlyLeft (rightFillerStyle (threeSectionFillerStyles sheet (Some m)))
           (fillerBorderWidth m) (fillerBorderRadius m)
       \<and> backgroundColor (leftFillerStyle (threeSectionFillerStyles sheet (Some m)))
           = leftSectionColor m
       \<and> backgroundColor (middleFillerStyle (threeSectionFillerStyles sheet (Some m)))
           = middleSectionColor m
       \<and> backgroundColor (rightFillerStyle (threeSectionFillerStyles sheet (Some m)))
           = rightSectionColor m
       \<and> threeSectionFillerStyles sheet (Some m) =
           threeSectionFillerStyles sheet
             (Some (m\<lparr>leftSectionIsSingleDay := l, rightSectionIsSingleDay := r\<rparr>))
       \<and> fillerBorderWidth m \<noteq> Num 0 \<and> fillerBorderRadius m \<noteq> Num 0"
proof -
  let ?m' = "m\<lparr>leftSectionIsSingleDay := l, rightSectionIsSingleDay := r\<rparr>"
  have a': "truthyBool (isMultiPeriod ?m')" "truthyString (leftSectionColor ?m')"
    "truthyString (middleSectionColor ?m')" "truthyString (rightSectionColor ?m')"
    using assms by simp_all
  have "threeSectionFillerStyles sheet (Some ?m') = threeSectionFillerStyles sheet (Some m)"
    by (simp add: threeSection_three [OF a'] threeSection_three [OF assms]
        fillerBorderWidth_def fillerBorderRadius_def)
  then show ?thesis
    using assms(2,3,4)
    by (simp add: threeSection_three [OF assms] closesOnlyRight_apply closesOnlyLeft_apply
        fullyClosed_applyFullyClosedBorder backgroundColor_closed backgroundColor_apply
        fillerBorderWidth_nonzero fillerBorderRadius_nonzero)
qed

theorem C5_witness:
  "truthyBool (isMultiPeriod threeSectionMarking)
   \<and> truthyString (leftSectionColor threeSectionMarking)
   \<and> truthyString (middleSectionColor threeSectionMarking)
   \<and> truthyString (rightSectionColor threeSectionMarking)
   \<and> truthyBool (leftSectionIsSingleDay threeSectionMarking)
   \<and> truthyBool (rightSectionIsSingleDay threeSectionMarking)
   \<and> closesOnlyRight (leftFillerStyle (threeSectionFillerStyles exampleSheet
         (Some threeSectionMarking))) (Num (7/10)) (Num 9)
   \<and> fullyClosed (middleFillerStyle (threeSectionFillerStyles exampleSheet
         (Some threeSectionMarking))) (Num (7/10)) (Num 9)
   \<and> closesOnlyLeft (rightFillerStyle (threeSectionFillerStyles exampleSheet
         (Some threeSectionMarking))) (Num (7/10)) (Num 9)"
proof -
  have h: "truthyBool (isMultiPeriod threeSectionMarking)"
    "truthyString (leftSectionColor threeSectionMarking)"
    "truthyString (middleSectionColor threeSectionMarking)"
    "truthyString (rightSectionColor threeSectionMarking)"
    by (simp_all add: threeSectionMarking_def twoSectionMarking_def emptyMarking_def)
  have f: "truthyBool (leftSectionIsSingleDay threeSectionMarking)"
    "truthyBool (rightSectionIsSingleDay threeSectionMarking)"
    by (simp_all add: threeSectionMarking_def twoSectionMarking_def emptyMarking_def)
  have w: "fillerBorderWidth threeSectionMarking = Num (7/10)"
    "fillerBorderRadius threeSectionMarking = Num 9"
    by (simp_all add: fillerBorderWidth_def fillerBorderRadius_def orNumber_def
        threeSectionMarking_def twoSectionMarking_def emptyMarking_def)
  show ?thesis
    using C5_three_sections [OF h, of exampleSheet None None] h f unfolding w by blast
qed

text \<open>
  C6. For the state \<^verbatim>\<open>''\<close> and the marking \<^verbatim>\<open>{startingDay: true, color: '#FF0000'}\<close>
  the left filler has the background \<^verbatim>\<open>#FF0000\<close>, the left width 0.7 and both left
  radii 9; the right filler has the background \<^verbatim>\<open>#FF0000\<close>, top and bottom width 0.7
  and no radius; the background pushed on the container, and the one it resolves to, is
  \<^verbatim>\<open>#FF0000\<close>. Both fillers carry in addition the border color \<^verbatim>\<open>#FF0000\<close>, and the
  left one the top and bottom width 0.7.
\<close>

theorem C6_starting_day_example:
  "leftFillerStyle (threeSectionFillerStyles sheet (Some startMarking)) =
     emptyStyle\<lparr>backgroundColor := Some ''#FF0000'', borderColor := Some ''#FF0000'',
       borderTopWidth := Some (Num (7/10)), borderBottomWidth := Some (Num (7/10)),
       borderLeftWidth := Some (Num (7/10)),
       borderTopLeftRadius := Some (Num 9), borderBottomLeftRadius := Some (Num 9)\<rparr>
   \<and> rightFillerStyle (threeSectionFillerStyles sheet (Some startMarking)) =
     emptyStyle\<lparr>backgroundColor := Some ''#FF0000'', borderColor := Some ''#FF0000'',
       borderTopWidth := Some (Num (7/10)), borderBottomWidth := Some (Num (7/10))\<rparr>
   \<and> containerStyle sheet (Some Empty) (Some startMarking) =
     [base sheet,
      emptyStyle\<lparr>borderRadius := Some (Num 17), overflow := Some ''hidden'',
        paddingTop := Some (Num 5)\<rparr>,
      emptyStyle\<lparr>backgroundColor := Some ''#FF0000''\<rparr>,
      emptyStyle]
   \<and> resolvedBackgroundColor (containerStyle sheet (Some Empty) (Some startMarking))
       = Some ''#FF0000''"
proof -
  have m: "\<not> truthyBool (isMultiPeriod startMarking)"
    by (simp add: startMarking_def emptyMarking_def)
  have ms: "ms_startingDay (markingStyle sheet (Some startMarking))
              = Some (periodEdgeStyle startMarking)"
    "ms_endingDay (markingStyle sheet (Some startMarking)) = None"
    by (simp_all add: markingStyle_startingDay markingStyle_endingDay startMarking_def
        emptyMarking_def)
  have pe: "periodEdgeStyle startMarking =
     emptyStyle\<lparr>backgroundColor := Some ''#FF0000'', borderColor := Some ''#FF0000'',
       borderWidth := Some (Num (7/10)), borderRadius := Some (Num 9)\<rparr>"
    by (simp add: periodEdgeStyle_def startMarking_def emptyMarking_def orString_def
        orNumber_def)
  have w: "fillerBorderWidth startMarking = Num (7/10)"
    "fillerBorderRadius startMarking = Num 9"
    by (simp_all add: fillerBorderWidth_def fillerBorderRadius_def orNumber_def
        startMarking_def emptyMarking_def)
  have fill: "threeSectionFillerStyles sheet (Some startMarking) =
     \<lparr>leftFillerStyle =
        applyBorderToSection transparentStyle (Some ''#FF0000'') (Some ''#FF0000'')
          (Num (7/10)) (Num 9) leftClosed,
      middleFillerStyle = transparentStyle,
      rightFillerStyle =
        applyBorderToSection transparentStyle (Some ''#FF0000'') (Some ''#FF0000'')
          (Num (7/10)) (Num 9) (noBorders\<lparr>topEdge := True, bottom := True\<rparr>),
      fillerStyle = emptyStyle\<rparr>"
    by (simp add: threeSection_single [OF m] handleSinglePeriod_def ms pe w emptyStyle_def)
  have flags: "\<not> truthyBool (isMultiPeriod startMarking)"
    "\<not> truthyBool (endingDay startMarking)" "truthyBool (startingDay startMarking)"
    "customContainerStyle startMarking = None" "today startMarking = None"
    "markingBorderRadius startMarking = None"
    by (simp_all add: startMarking_def emptyMarking_def)
  have bg: "backgroundColor (periodEdgeStyle startMarking) = Some ''#FF0000''"
    by (simp add: pe)
  have c: "containerStyle sheet (Some Empty) (Some startMarking) =
     [base sheet,
      emptyStyle\<lparr>borderRadius := Some (Num 17), overflow := Some ''hidden'',
        paddingTop := Some (Num 5)\<rparr>,
      emptyStyle\<lparr>backgroundColor := Some ''#FF0000''\<rparr>,
      emptyStyle]"
    by (simp add: containerStyle_marking flags bg baseContainerStyle_def isToday_def
        orNumber_def)
  have r: "resolvedBackgroundColor (containerStyle sheet (Some Empty) (Some startMarking))
             = Some ''#FF0000''"
    unfolding c by (simp add: resolvedBackgroundColor_def emptyStyle_def)
  have l: "leftFillerStyle (threeSectionFillerStyles sheet (Some startMarking)) =
     emptyStyle\<lparr>backgroundColor := Some ''#FF0000'', borderColor := Some ''#FF0000'',
       borderTopWidth := Some (Num (7/10)), borderBottomWidth := Some (Num (7/10)),
       borderLeftWidth := Some (Num (7/10)),
       borderTopLeftRadius := Some (Num 9), borderBottomLeftRadius := Some (Num 9)\<rparr>"
    by (simp add: fill applyBorderToSection_def leftClosed_def noBorders_def
        transparentStyle_def emptyStyle_def Let_def)
  have rf: "rightFillerStyle (threeSectionFillerStyles sheet (Some startMarking)) =
     emptyStyle\<lparr>backgroundColor := Some ''#FF0000'', borderColor := Some ''#FF0000'',
       borderTopWidth := Some (Num (7/10)), borderBottomWidth := Some (Num (7/10))\<rparr>"
    by (simp add: fill applyBorderToSection_def noBorders_def
        transparentStyle_def emptyStyle_def Let_def)
  show ?thesis
    by (intro conjI) (rule l rf c r)+
qed


text \<open>
  C7. Touch events are disabled by this precedence: a \<^verbatim>\<open>disableTouchEvent\<close> given on the
  marking decides alone, true or false; otherwise, when the day is disabled and
  \<^verbatim>\<open>disableAllTouchEventsForDisabledDays\<close> is given, that flag decides; otherwise, when
  the day is inactive and \<^verbatim>\<open>disableAllTouchEventsForInactiveDays\<close> is given, that flag
  decides; otherwise touch is not disabled.
\<close>

theorem C7_touch_precedence:
  "(explicitDisableTouchEvent marking = Some b \<longrightarrow>
      shouldDisableTouchEvent marking state fd fi = b)
   \<and> (explicitDisableTouchEvent marking = None \<and> isDisabled marking state \<and> fd = Some b \<longrightarrow>
      shouldDisableTouchEvent marking state fd fi = b)
   \<and> (explicitDisableTouchEvent marking = None \<and> \<not> (isDisabled marking state \<and> fd \<noteq> None)
        \<and> isInactive marking state \<and> fi = Some b \<longrightarrow>
      shouldDisableTouchEvent marking state fd fi = b)
   \<and> (explicitDisableTouchEvent marking = None \<and> \<not> (isDisabled marking state \<and> fd \<noteq> None)
        \<and> \<not> (isInactive marking state \<and> fi \<noteq> None) \<longrightarrow>
      \<not> shouldDisableTouchEvent marking state fd fi)"
  by (auto simp add: shouldDisableTouchEvent_def explicitDisableTouchEvent_def Let_def
      split: option.splits)

theorem C7_witness:
  "explicitDisableTouchEvent (Some (emptyMarking\<lparr>disabled := Some True,
       disableTouchEvent := Some False\<rparr>)) = Some False
   \<and> \<not> shouldDisableTouchEvent (Some (emptyMarking\<lparr>disabled := Some True,
       disableTouchEvent := Some False\<rparr>)) (Some Disabled) (Some True) (Some True)
   \<and> explicitDisableTouchEvent None = None \<and> isDisabled None (Some Disabled)
   \<and> shouldDisableTouchEvent None (Some Disabled) (Some True) None
   \<and> \<not> isDisabled None (Some Inactive) \<and> isInactive None (Some Inactive)
   \<and> shouldDisableTouchEvent None (Some Inactive) (Some False) (Some True)
   \<and> \<not> isInactive None (Some Disabled)
   \<and> \<not> shouldDisableTouchEvent None (Some Disabled) None (Some True)"
proof -
  let ?m = "emptyMarking\<lparr>disabled := Some True, disableTouchEvent := Some False\<rparr>"
  have e: "explicitDisableTouchEvent (Some ?m) = Some False"
    "explicitDisableTouchEvent None = None"
    by (simp_all add: explicitDisableTouchEvent_def)
  have d: "isDisabled None (Some Disabled)" "\<not> isDisabled None (Some Inactive)"
    "isInactive None (Some Inactive)" "\<not> isInactive None (Some Disabled)"
    by (simp_all add: isDisabled_def isInactive_def)
  show ?thesis
    using C7_touch_precedence [of "Some ?m" False "Some Disabled" "Some True" "Some True"]
      C7_touch_precedence [of None True "Some Disabled" "Some True" None]
      C7_touch_precedence [of None True "Some Inactive" "Some False" "Some True"]
      C7_touch_precedence [of None True "Some Disabled" None "Some True"]
      e d
    by simp
qed

text \<open>
  C8. The text style a marking gives is chosen first match wins among disabled, inactive
  and selected; a \<^verbatim>\<open>textColor\<close> that is present (truthy) then replaces that choice, and a
  \<^verbatim>\<open>customTextStyle\<close> that is present replaces it in turn. In the text style array this
  style comes last, after the style derived from the state of the day.
\<close>

theorem C8_marking_text_style:
  "ms_textStyle (markingStyle sheet (Some m)) = markingTextStyleSpec sheet m
   \<and> last (textStyle sheet state (Some m)) = markingTextStyleSpec sheet m"
proof -
  have "ms_textStyle (markingStyle sheet (Some m)) = markingTextStyleSpec sheet m"
    by (simp add: markingStyle_def markingTextStyleSpec_def defaultStyle_def Let_def
        split: option.splits)
  then show ?thesis
    by (simp add: textStyle_def Let_def)
qed

theorem C8_witness:
  "ms_textStyle (markingStyle exampleSheet (Some textMarking)) = \<lparr>color = Some ''#123456''\<rparr>
   \<and> ms_textStyle (markingStyle exampleSheet
        (Some (emptyMarking\<lparr>disabled := Some True, selected := Some True\<rparr>)))
       = \<lparr>color = Some ''grey''\<rparr>
   \<and> ms_textStyle (markingStyle exampleSheet
        (Some (textMarking\<lparr>customTextStyle := Some \<lparr>color = Some ''#ABCDEF''\<rparr>\<rparr>)))
       = \<lparr>color = Some ''#ABCDEF''\<rparr>"
  using C8_marking_text_style [of exampleSheet textMarking None]
    C8_marking_text_style [of exampleSheet
      "emptyMarking\<lparr>disabled := Some True, selected := Some True\<rparr>" None]
    C8_marking_text_style [of exampleSheet
      "textMarking\<lparr>customTextStyle := Some \<lparr>color = Some ''#ABCDEF''\<rparr>\<rparr>" None]
  by (simp add: markingTextStyleSpec_def textMarking_def emptyMarking_def exampleSheet_def)

text \<open>
  C1, as the code has it. In single period mode with \<^verbatim>\<open>startingDay\<close> and \<^verbatim>\<open>endingDay\<close>
  both set, the style closed on all four edges with one width that is not zero, and on
  all four corners with the radius, is \<^verbatim>\<open>fillerStyle\<close>, the style of the view that wraps
  the two fillers. The left and the right filler stay \<^verbatim>\<open>{backgroundColor: 'transparent'}\<close>:
  no edge and no corner of theirs is set.
\<close>

theorem C1_single_day_wrapper_closed:
  assumes "\<not> truthyBool (isMultiPeriod m)"
    and "truthyBool (startingDay m)" and "truthyBool (endingDay m)"
  shows "fullyClosed (fillerStyle (threeSectionFillerStyles sheet (Some m)))
           (fillerBorderWidth m) (fillerBorderRadius m)
       \<and> fillerBorderWidth m \<noteq> Num 0 \<and> fillerBorderRadius m \<noteq> Num 0
       \<and> leftFillerStyle (threeSectionFillerStyles sheet (Some m)) = transparentStyle
       \<and> rightFillerStyle (threeSectionFillerStyles sheet (Some m)) = transparentStyle"
proof -
  have s: "ms_startingDay (markingStyle sheet (Some m)) = Some (periodEdgeStyle m)"
    and e: "ms_endingDay (markingStyle sheet (Some m)) = Some (periodEdgeStyle m)"
    using assms by (simp_all add: markingStyle_startingDay markingStyle_endingDay)
  show ?thesis
    by (simp add: threeSection_single [OF assms(1)] handleSinglePeriod_both [OF s e]
        fullyClosed_def emptyStyle_def fillerBorderWidth_nonzero fillerBorderRadius_nonzero)
qed

theorem C1_witness:
  "\<not> truthyBool (isMultiPeriod singleDayMarking)
   \<and> truthyBool (startingDay singleDayMarking) \<and> truthyBool (endingDay singleDayMarking)
   \<and> fullyClosed (fillerStyle (threeSectionFillerStyles exampleSheet (Some singleDayMarking)))
        (Num (7/10)) (Num 9)
   \<and> leftFillerStyle (threeSectionFillerStyles exampleSheet (Some singleDayMarking))
        = transparentStyle
   \<and> rightFillerStyle (threeSectionFillerStyles exampleSheet (Some singleDayMarking))
        = transparentStyle"
proof -
  have h: "\<not> truthyBool (isMultiPeriod singleDayMarking)"
    "truthyBool (startingDay singleDayMarking)" "truthyBool (endingDay singleDayMarking)"
    by (simp_all add: singleDayMarking_def emptyMarking_def)
  have w: "fillerBorderWidth singleDayMarking = Num (7/10)"
    "fillerBorderRadius singleDayMarking = Num 9"
    by (simp_all add: fillerBorderWidth_def fillerBorderRadius_def orNumber_def
        singleDayMarking_def emptyMarking_def)
  show ?thesis
    using C1_single_day_wrapper_closed [OF h, of exampleSheet] h unfolding w by blast
qed

text \<open>
  C1, as stated, fails at \<^verbatim>\<open>{startingDay: true, endingDay: true, color: '#FF0000'}\<close>:
  neither filler has a left, right, top or bottom width, nor a corner radius.
\<close>

theorem C1_counterexample:
  "\<not> truthyBool (isMultiPeriod singleDayMarking)
   \<and> truthyBool (startingDay singleDayMarking) \<and> truthyBool (endingDay singleDayMarking)
   \<and> borderTopWidth (leftFillerStyle (threeSectionFillerStyles exampleSheet
        (Some singleDayMarking))) = None
   \<and> borderLeftWidth (leftFillerStyle (threeSectionFillerStyles exampleSheet
        (Some singleDayMarking))) = None
   \<and> borderTopLeftRadius (leftFillerStyle (threeSectionFillerStyles exampleSheet
        (Some singleDayMarking))) = None
   \<and> borderTopWidth (rightFillerStyle (threeSectionFillerStyles exampleSheet
        (Some singleDayMarking))) = None
   \<and> borderRightWidth (rightFillerStyle (threeSectionFillerStyles exampleSheet
        (Some singleDayMarking))) = None
   \<and> borderTopRightRadius (rightFillerStyle (threeSectionFillerStyles exampleSheet
        (Some singleDayMarking))) = None"
proof -
  have h: "\<not> truthyBool (isMultiPeriod singleDayMarking)"
    "truthyBool (startingDay singleDayMarking)" "truthyBool (endingDay singleDayMarking)"
    by (simp_all add: singleDayMarking_def emptyMarking_def)
  have s: "ms_startingDay (markingStyle exampleSheet (Some singleDayMarking))
             = Some (periodEdgeStyle singleDayMarking)"
    and e: "ms_endingDay (markingStyle exampleSheet (Some singleDayMarking))
             = Some (periodEdgeStyle singleDayMarking)"
    using h by (simp_all add: markingStyle_startingDay markingStyle_endingDay)
  show ?thesis
    using h
    by (simp add: threeSection_single [OF h(1)] handleSinglePeriod_both [OF s e]
        transparentStyle_def emptyStyle_def)
qed

text \<open>
  C2, as the code has it. In multi period mode, when the section colors present are
  neither exactly left and right nor all three: a section alone is closed on all four
  sides; a middle section that is present is closed on all four sides; a left section with
  a sibling closes only its right edge, and a right section with a sibling closes only
  its left edge, so the edge that faces the sibling is closed and the outer edge stays
  open; the filler of a section that is not present stays
  \<^verbatim>\<open>{backgroundColor: 'transparent'}\<close>.
\<close>

theorem C2_fallback_rule:
  assumes "truthyBool (isMultiPeriod m)"
    and "\<not> (truthyString (leftSectionColor m) \<and> truthyString (rightSectionColor m)
            \<and> \<not> truthyString (middleSectionColor m))"
    and "\<not> (truthyString (leftSectionColor m) \<and> truthyString (middleSectionColor m)
            \<and> truthyString (rightSectionColor m))"
  shows "(truthyString (leftSectionColor m) \<longrightarrow>
            (if \<not> truthyString (middleSectionColor m) \<and> \<not> truthyString (rightSectionColor m)
             then fullyClosed (leftFillerStyle (threeSectionFillerStyles sheet (Some m)))
                    (fillerBorderWidth m) (fillerBorderRadius m)
             else closesOnlyRight (leftFillerStyle (threeSectionFillerStyles sheet (Some m)))
                    (fillerBorderWidth m) (fillerBorderRadius m)))
       \<and> (\<not> truthyString (leftSectionColor m) \<longrightarrow>
            leftFillerStyle (threeSectionFillerStyles sheet (Some m)) = transparentStyle)
       \<and> (truthyString (middleSectionColor m) \<longrightarrow>
            fullyClosed (middleFillerStyle (threeSectionFillerStyles sheet (Some m)))
              (fillerBorderWidth m) (fillerBorderRadius m))
       \<and> (\<not> truthyString (middleSectionColor m) \<longrightarrow>
            middleFillerStyle (threeSectionFillerStyles sheet (Some m)) = transparentStyle)
       \<and> (truthyString (rightSectionColor m) \<longrightarrow>
            (if \<not> truthyString (middleSectionColor m) \<and> \<not> truthyString (leftSectionColor m)
             then fullyClosed (rightFillerStyle (threeSectionFillerStyles sheet (Some m)))
                    (fillerBorderWidth m) (fillerBorderRadius m)
             else closesOnlyLeft (rightFillerStyle (threeSectionFillerStyles sheet (Some m)))
                    (fillerBorderWidth m) (fillerBorderRadius m)))
       \<and> (\<not> truthyString (rightSectionColor m) \<longrightarrow>
            rightFillerStyle (threeSectionFillerStyles sheet (Some m)) = transparentStyle)
       \<and> fillerBorderWidth m \<noteq> Num 0 \<and> fillerBorderRadius m \<noteq> Num 0"
  by (simp add: threeSection_fallback [OF assms] handleFallbackMultiPeriod_def Let_def
      fullyClosed_applyFullyClosedBorder closesOnlyRight_apply closesOnlyLeft_apply
      fillerBorderWidth_nonzero fillerBorderRadius_nonzero)

theorem C2_witness:
  "truthyBool (isMultiPeriod leftMiddleMarking)
   \<and> truthyString (leftSectionColor leftMiddleMarking)
   \<and> truthyString (middleSectionColor leftMiddleMarking)
   \<and> \<not> truthyString (rightSectionColor leftMiddleMarking)
   \<and> closesOnlyRight (leftFillerStyle (threeSectionFillerStyles exampleSheet
        (Some leftMiddleMarking))) (Num (7/10)) (Num 9)
   \<and> fullyClosed (middleFillerStyle (threeSectionFillerStyles exampleSheet
        (Some leftMiddleMarking))) (Num (7/10)) (Num 9)
   \<and> rightFillerStyle (threeSectionFillerStyles exampleSheet (Some leftMiddleMarking))
        = transparentStyle"
proof -
  have h: "truthyBool (isMultiPeriod leftMiddleMarking)"
    "truthyString (leftSectionColor leftMiddleMarking)"
    "truthyString (middleSectionColor leftMiddleMarking)"
    "\<not> truthyString (rightSectionColor leftMiddleMarking)"
    by (simp_all add: leftMiddleMarking_def emptyMarking_def)
  have a: "\<not> (truthyString (leftSectionColor leftMiddleMarking)
            \<and> truthyString (rightSectionColor leftMiddleMarking)
            \<and> \<not> truthyString (middleSectionColor leftMiddleMarking))"
    "\<not> (truthyString (leftSectionColor leftMiddleMarking)
            \<and> truthyString (middleSectionColor leftMiddleMarking)
            \<and> truthyString (rightSectionColor leftMiddleMarking))"
    using h by simp_all
  have w: "fillerBorderWidth leftMiddleMarking = Num (7/10)"
    "fillerBorderRadius leftMiddleMarking = Num 9"
    by (simp_all add: fillerBorderWidth_def fillerBorderRadius_def orNumber_def
        leftMiddleMarking_def emptyMarking_def)
  show ?thesis
    using C2_fallback_rule [OF h(1) a, of exampleSheet] h unfolding w by simp
qed

text \<open>
  C2, as stated, fails at
  \<^verbatim>\<open>{isMultiPeriod: true, leftSectionColor: '#FF0000', middleSectionColor: '#00FF00'}\<close>:
  the left section has no sibling on its left side, and its left edge is not closed; it is
  its right edge, the one that faces the middle section, that is closed.
\<close>

theorem C2_counterexample:
  "truthyBool (isMultiPeriod leftMiddleMarking)
   \<and> truthyString (leftSectionColor leftMiddleMarking)
   \<and> truthyString (middleSectionColor leftMiddleMarking)
   \<and> \<not> truthyString (rightSectionColor leftMiddleMarking)
   \<and> borderLeftWidth (leftFillerStyle (threeSectionFillerStyles exampleSheet
        (Some leftMiddleMarking))) = None
   \<and> borderTopLeftRadius (leftFillerStyle (threeSectionFillerStyles exampleSheet
        (Some leftMiddleMarking))) = None
   \<and> borderBottomLeftRadius (leftFillerStyle (threeSectionFillerStyles exampleSheet
        (Some leftMiddleMarking))) = None
   \<and> borderRightWidth (leftFillerStyle (threeSectionFillerStyles exampleSheet
        (Some leftMiddleMarking))) = Some (Num (7/10))"
proof -
  have h: "truthyBool (isMultiPeriod leftMiddleMarking)"
    "truthyString (leftSectionColor leftMiddleMarking)"
    "truthyString (middleSectionColor leftMiddleMarking)"
    "\<not> truthyString (rightSectionColor leftMiddleMarking)"
    by (simp_all add: leftMiddleMarking_def emptyMarking_def)
  have a: "\<not> (truthyString (leftSectionColor leftMiddleMarking)
            \<and> truthyString (rightSectionColor leftMiddleMarking)
            \<and> \<not> truthyString (middleSectionColor leftMiddleMarking))"
    "\<not> (truthyString (leftSectionColor leftMiddleMarking)
            \<and> truthyString (middleSectionColor leftMiddleMarking)
            \<and> truthyString (rightSectionColor leftMiddleMarking))"
    using h by simp_all
  have w: "fillerBorderWidth leftMiddleMarking = Num (7/10)"
    by (simp add: fillerBorderWidth_def orNumber_def leftMiddleMarking_def emptyMarking_def)
  have "closesOnlyRight (leftFillerStyle (threeSectionFillerStyles exampleSheet
        (Some leftMiddleMarking))) (Num (7/10)) (fillerBorderRadius leftMiddleMarking)"
    using h
    by (simp add: threeSection_fallback [OF h(1) a] handleFallbackMultiPeriod_def Let_def
        closesOnlyRight_apply w)
  then show ?thesis
    using h by (simp add: closesOnlyRight_def)
qed

text \<open>
  C9, as the code has it. In multi period mode the background the component pushes on the
  container is \<^verbatim>\<open>transparent\<close>, and no color of the marking's periods is pushed: the
  container style is the base style, the today style when the day is today, the base
  container style, \<^verbatim>\<open>{backgroundColor: 'transparent'}\<close>, and last the
  \<^verbatim>\<open>customContainerStyle\<close> of the marking or \<^verbatim>\<open>{}\<close>. With no \<^verbatim>\<open>customContainerStyle\<close>
  the background resolves to \<^verbatim>\<open>transparent\<close>.
\<close>

theorem C9_multi_period_container:
  assumes "truthyBool (isMultiPeriod m)"
  shows "containerStyle sheet state (Some m) =
           (if isToday (Some m) state then [base sheet, todayStyle sheet] else [base sheet]) @
           [baseContainerStyle m, emptyStyle\<lparr>backgroundColor := Some ''transparent''\<rparr>,
            (case customContainerStyle m of Some c \<Rightarrow> c | None \<Rightarrow> emptyStyle)]
       \<and> backgroundColor (baseContainerStyle m) = None
       \<and> (customContainerStyle m = None \<longrightarrow>
            resolvedBackgroundColor (containerStyle sheet state (Some m))
              = Some ''transparent'')"
proof -
  have c: "containerStyle sheet state (Some m) =
           ((if isToday (Some m) state then [base sheet, todayStyle sheet] else [base sheet]) @
            [baseContainerStyle m, emptyStyle\<lparr>backgroundColor := Some ''transparent''\<rparr>]) @
           [case customContainerStyle m of Some c \<Rightarrow> c | None \<Rightarrow> emptyStyle]"
    using assms by (simp add: containerStyle_marking)
  have c': "containerStyle sheet state (Some m) =
           (if isToday (Some m) state then [base sheet, todayStyle sheet] else [base sheet]) @
           [baseContainerStyle m, emptyStyle\<lparr>backgroundColor := Some ''transparent''\<rparr>,
            (case customContainerStyle m of Some c \<Rightarrow> c | None \<Rightarrow> emptyStyle)]"
    using c by simp
  have t: "resolvedBackgroundColor (xs @ [y, emptyStyle\<lparr>backgroundColor := Some z\<rparr>, emptyStyle])
             = Some z" for xs y z
    by (simp add: resolvedBackgroundColor_def emptyStyle_def)
  have r: "resolvedBackgroundColor (containerStyle sheet state (Some m)) = Some ''transparent''"
    if "customContainerStyle m = None"
    by (simp only: c' that option.case t)
  have b: "backgroundColor (baseContainerStyle m) = None"
    by (simp add: baseContainerStyle_def emptyStyle_def)
  show ?thesis
    using c' r b by blast
qed

theorem C9_witness:
  "truthyBool (isMultiPeriod twoSectionMarking)
   \<and> customContainerStyle twoSectionMarking = None
   \<and> resolvedBackgroundColor (containerStyle exampleSheet (Some Empty)
        (Some twoSectionMarking)) = Some ''transparent''"
proof -
  have h: "truthyBool (isMultiPeriod twoSectionMarking)"
    by (simp add: twoSectionMarking_def emptyMarking_def)
  have n: "customContainerStyle twoSectionMarking = None"
    by (simp add: twoSectionMarking_def emptyMarking_def)
  show ?thesis
    using C9_multi_period_container [OF h, of exampleSheet "Some Empty"] h n by blast
qed

text \<open>
  C9, as stated, fails at
  \<^verbatim>\<open>{isMultiPeriod: true, customContainerStyle: {backgroundColor: '#00FF00'}}\<close>: the custom
  style is pushed after the transparent background, and the container resolves to
  \<^verbatim>\<open>#00FF00\<close>.
\<close>

theorem C9_counterexample:
  "truthyBool (isMultiPeriod customContainerMarking)
   \<and> containerStyle exampleSheet (Some Empty) (Some customContainerMarking) =
        [base exampleSheet, baseContainerStyle customContainerMarking,
         emptyStyle\<lparr>backgroundColor := Some ''transparent''\<rparr>,
         emptyStyle\<lparr>backgroundColor := Some ''#00FF00''\<rparr>]
   \<and> resolvedBackgroundColor (containerStyle exampleSheet (Some Empty)
        (Some customContainerMarking)) = Some ''#00FF00''
   \<and> resolvedBackgroundColor (containerStyle exampleSheet (Some Empty)
        (Some customContainerMarking)) \<noteq> Some ''transparent''"
proof -
  have h: "truthyBool (isMultiPeriod customContainerMarking)"
    "customContainerStyle customContainerMarking
       = Some (emptyStyle\<lparr>backgroundColor := Some ''#00FF00''\<rparr>)"
    "\<not> isToday (Some customContainerMarking) (Some Empty)"
    by (simp_all add: customContainerMarking_def emptyMarking_def isToday_def)
  have c: "containerStyle exampleSheet (Some Empty) (Some customContainerMarking) =
        [base exampleSheet, baseContainerStyle customContainerMarking,
         emptyStyle\<lparr>backgroundColor := Some ''transparent''\<rparr>]
        @ [emptyStyle\<lparr>backgroundColor := Some ''#00FF00''\<rparr>]"
    using h by (simp add: containerStyle_marking)
  have r: "resolvedBackgroundColor (containerStyle exampleSheet (Some Empty)
        (Some customContainerMarking)) = Some ''#00FF00''"
    unfolding c resolvedBackgroundColor_snoc by simp
  show ?thesis
    using h(1) c r by simp
qed


text \<open>
  C3. The single period handler is given a marking style; when that has a start style and
  an end style, the filler style it returns takes its background color from the start
  style and falls back to the end style only when the start style has none, and likewise
  for the border color: start takes precedence. A value that is \<^verbatim>\<open>undefined\<close> or the empty
  string counts as none, as \<^verbatim>\<open>||\<close> tests it. The background pushed on the container is
  the one of the end style. For a marking in single period mode with \<^verbatim>\<open>startingDay\<close> and
  \<^verbatim>\<open>endingDay\<close> both set, the marking style has both styles, the filler style of the
  result is the one this handler returns, and the container style is computed from that
  marking style. The start and the end style are arbitrary and independent here; those
  of a marking are both built from the marking's own color.
\<close>

theorem C3_single_day_precedence:
  assumes "ms_startingDay ms = Some start" and "ms_endingDay ms = Some end'"
  shows "backgroundColor (snd (snd (handleSinglePeriod lfs rfs fs ms bw br)))
           = startTakesPrecedence (backgroundColor start) (backgroundColor end')
       \<and> borderColor (snd (snd (handleSinglePeriod lfs rfs fs ms bw br)))
           = startTakesPrecedence (borderColor start) (borderColor end')
       \<and> (\<not> truthyBool (isMultiPeriod m) \<longrightarrow>
            containerStyleOf sheet state (Some m) ms =
              (if isToday (Some m) state then [base sheet, todayStyle sheet]
               else [base sheet]) @
              [baseContainerStyle m, emptyStyle\<lparr>backgroundColor := backgroundColor end'\<rparr>,
               ms_containerStyle ms])
       \<and> (\<not> truthyBool (isMultiPeriod m) \<and> truthyBool (startingDay m)
            \<and> truthyBool (endingDay m) \<longrightarrow>
            ms_startingDay (markingStyle sheet (Some m)) = Some (periodEdgeStyle m)
          \<and> ms_endingDay (markingStyle sheet (Some m)) = Some (periodEdgeStyle m)
          \<and> fillerStyle (threeSectionFillerStyles sheet (Some m)) =
              snd (snd (handleSinglePeriod transparentStyle transparentStyle emptyStyle
                (markingStyle sheet (Some m)) (fillerBorderWidth m) (fillerBorderRadius m)))
          \<and> containerStyle sheet state (Some m) =
              containerStyleOf sheet state (Some m) (markingStyle sheet (Some m)))"
proof -
  have f: "backgroundColor (snd (snd (handleSinglePeriod lfs rfs fs ms bw br)))
           = startTakesPrecedence (backgroundColor start) (backgroundColor end')"
    "borderColor (snd (snd (handleSinglePeriod lfs rfs fs ms bw br)))
           = startTakesPrecedence (borderColor start) (borderColor end')"
    by (simp_all add: handleSinglePeriod_both [OF assms] orString_precedence)
  have c: "containerStyleOf sheet state (Some m) ms =
              (if isToday (Some m) state then [base sheet, todayStyle sheet]
               else [base sheet]) @
              [baseContainerStyle m, emptyStyle\<lparr>backgroundColor := backgroundColor end'\<rparr>,
               ms_containerStyle ms]"
    if "\<not> truthyBool (isMultiPeriod m)"
    using containerStyleOf_single [OF that assms(2)] .
  have k: "ms_startingDay (markingStyle sheet (Some m)) = Some (periodEdgeStyle m)
          \<and> ms_endingDay (markingStyle sheet (Some m)) = Some (periodEdgeStyle m)
          \<and> fillerStyle (threeSectionFillerStyles sheet (Some m)) =
              snd (snd (handleSinglePeriod transparentStyle transparentStyle emptyStyle
                (markingStyle sheet (Some m)) (fillerBorderWidth m) (fillerBorderRadius m)))
          \<and> containerStyle sheet state (Some m) =
              containerStyleOf sheet state (Some m) (markingStyle sheet (Some m))"
    if "\<not> truthyBool (isMultiPeriod m)" "truthyBool (startingDay m)"
      "truthyBool (endingDay m)"
  proof -
    have "fillerStyle (threeSectionFillerStyles sheet (Some m)) =
              snd (snd (handleSinglePeriod transparentStyle transparentStyle emptyStyle
                (markingStyle sheet (Some m)) (fillerBorderWidth m) (fillerBorderRadius m)))"
      by (simp add: threeSection_single [OF that(1)] split: prod.splits)
    then show ?thesis
      using that by (simp add: markingStyle_startingDay markingStyle_endingDay
          containerStyle_def)
  qed
  show ?thesis
    using f c k by blast
qed

theorem C3_witness:
  "ms_startingDay mixedMarkingStyle = Some (emptyStyle\<lparr>backgroundColor := Some ''#FF0000''\<rparr>)
   \<and> ms_endingDay mixedMarkingStyle
       = Some (emptyStyle\<lparr>backgroundColor := Some ''#0000FF'', borderColor := Some ''#00FF00''\<rparr>)
   \<and> backgroundColor (snd (snd (handleSinglePeriod transparentStyle transparentStyle
        emptyStyle mixedMarkingStyle (Num (7/10)) (Num 9)))) = Some ''#FF0000''
   \<and> borderColor (snd (snd (handleSinglePeriod transparentStyle transparentStyle
        emptyStyle mixedMarkingStyle (Num (7/10)) (Num 9)))) = Some ''#00FF00''
   \<and> \<not> truthyBool (isMultiPeriod singleDayMarking)
   \<and> containerStyleOf exampleSheet (Some Empty) (Some singleDayMarking) mixedMarkingStyle =
        [base exampleSheet, baseContainerStyle singleDayMarking,
         emptyStyle\<lparr>backgroundColor := Some ''#0000FF''\<rparr>, emptyStyle]
   \<and> backgroundColor (snd (snd (handleSinglePeriod transparentStyle transparentStyle
        emptyStyle emptyStartMarkingStyle (Num (7/10)) (Num 9)))) = Some ''#0000FF''
   \<and> truthyBool (startingDay singleDayMarking) \<and> truthyBool (endingDay singleDayMarking)
   \<and> backgroundColor (fillerStyle (threeSectionFillerStyles exampleSheet
        (Some singleDayMarking))) = Some ''#FF0000''"
proof -
  have s: "ms_startingDay mixedMarkingStyle
             = Some (emptyStyle\<lparr>backgroundColor := Some ''#FF0000''\<rparr>)"
    and e: "ms_endingDay mixedMarkingStyle
             = Some (emptyStyle\<lparr>backgroundColor := Some ''#0000FF'',
                  borderColor := Some ''#00FF00''\<rparr>)"
    by (simp_all add: mixedMarkingStyle_def defaultStyle_def)
  have s': "ms_startingDay emptyStartMarkingStyle
             = Some (emptyStyle\<lparr>backgroundColor := Some []\<rparr>)"
    and e': "ms_endingDay emptyStartMarkingStyle
             = Some (emptyStyle\<lparr>backgroundColor := Some ''#0000FF'',
                  borderColor := Some ''#00FF00''\<rparr>)"
    by (simp_all add: emptyStartMarkingStyle_def defaultStyle_def)
  have h: "\<not> truthyBool (isMultiPeriod singleDayMarking)"
    "truthyBool (startingDay singleDayMarking)" "truthyBool (endingDay singleDayMarking)"
    by (simp_all add: singleDayMarking_def emptyMarking_def)
  have k: "\<not> isToday (Some singleDayMarking) (Some Empty)"
    "ms_containerStyle mixedMarkingStyle = emptyStyle"
    by (simp_all add: isToday_def mixedMarkingStyle_def defaultStyle_def singleDayMarking_def
        emptyMarking_def)
  have p: "backgroundColor (periodEdgeStyle singleDayMarking) = Some ''#FF0000''"
    by (simp add: periodEdgeStyle_def singleDayMarking_def emptyMarking_def)
  note a = C3_single_day_precedence [OF s e, of transparentStyle transparentStyle emptyStyle
      "Num (7/10)" "Num 9" singleDayMarking exampleSheet "Some Empty"]
  note b = C3_single_day_precedence [OF s' e', of transparentStyle transparentStyle emptyStyle
      "Num (7/10)" "Num 9" singleDayMarking exampleSheet "Some Empty"]
  have m: "ms_startingDay (markingStyle exampleSheet (Some singleDayMarking))
             = Some (periodEdgeStyle singleDayMarking)"
    "ms_endingDay (markingStyle exampleSheet (Some singleDayMarking))
             = Some (periodEdgeStyle singleDayMarking)"
    "fillerStyle (threeSectionFillerStyles exampleSheet (Some singleDayMarking)) =
       snd (snd (handleSinglePeriod transparentStyle transparentStyle emptyStyle
         (markingStyle exampleSheet (Some singleDayMarking))
         (fillerBorderWidth singleDayMarking) (fillerBorderRadius singleDayMarking)))"
    using a h by blast+
  note c = C3_single_day_precedence [OF m(1,2), of transparentStyle transparentStyle
      emptyStyle "fillerBorderWidth singleDayMarking" "fillerBorderRadius singleDayMarking"
      singleDayMarking exampleSheet "Some Empty"]
  have x1: "backgroundColor (snd (snd (handleSinglePeriod transparentStyle transparentStyle
        emptyStyle mixedMarkingStyle (Num (7/10)) (Num 9)))) = Some ''#FF0000''"
    "borderColor (snd (snd (handleSinglePeriod transparentStyle transparentStyle
        emptyStyle mixedMarkingStyle (Num (7/10)) (Num 9)))) = Some ''#00FF00''"
    using a by (simp_all add: startTakesPrecedence_def emptyStyle_def)
  have x2: "containerStyleOf exampleSheet (Some Empty) (Some singleDayMarking)
        mixedMarkingStyle =
        [base exampleSheet, baseContainerStyle singleDayMarking,
         emptyStyle\<lparr>backgroundColor := Some ''#0000FF''\<rparr>, emptyStyle]"
    using a h(1) k by simp
  have x3: "backgroundColor (snd (snd (handleSinglePeriod transparentStyle transparentStyle
        emptyStyle emptyStartMarkingStyle (Num (7/10)) (Num 9)))) = Some ''#0000FF''"
    using b by (simp add: startTakesPrecedence_def emptyStyle_def)
  have x4: "backgroundColor (fillerStyle (threeSectionFillerStyles exampleSheet
        (Some singleDayMarking))) = Some ''#FF0000''"
    using c by (simp add: m(3) p startTakesPrecedence_def)
  show ?thesis
    using s e x1 x2 x3 x4 h by blast
qed

text \<open>
  C10. A \<^verbatim>\<open>borderWith\<close> of zero is read as a missing one: the fillers use the width 0.7,
  and every style computed is the one computed without the field. A \<^verbatim>\<open>borderRadius\<close>
  of zero is read as a missing one: the fillers use the radius 9, the container 17.
  Whatever the marking, the width and the radii used are never zero. The width and the
  radius in question are the ones in the styles computed: the base container style is
  the entry of the container style after the base and today styles; every edge width a
  filler style has is the filler width and every corner radius the filler radius, and
  each shape sets them (start only, end only, both, neither, and in multi period mode
  each section that is present); the start, end and day styles of the marking style
  carry them as \<^verbatim>\<open>borderWidth\<close> and \<^verbatim>\<open>borderRadius\<close>.
\<close>

theorem C10_zero_reads_as_absent:
  "(borderWith m = Some (Num 0) \<longrightarrow>
      fillerBorderWidth m = Num (7/10)
      \<and> threeSectionFillerStyles sheet (Some m)
          = threeSectionFillerStyles sheet (Some (m\<lparr>borderWith := None\<rparr>))
      \<and> markingStyle sheet (Some m) = markingStyle sheet (Some (m\<lparr>borderWith := None\<rparr>))
      \<and> containerStyle sheet state (Some m)
          = containerStyle sheet state (Some (m\<lparr>borderWith := None\<rparr>)))
   \<and> (markingBorderRadius m = Some (Num 0) \<longrightarrow>
      fillerBorderRadius m = Num 9
      \<and> borderRadius (baseContainerStyle m) = Some (Num 17)
      \<and> threeSectionFillerStyles sheet (Some m)
          = threeSectionFillerStyles sheet (Some (m\<lparr>markingBorderRadius := None\<rparr>))
      \<and> markingStyle sheet (Some m)
          = markingStyle sheet (Some (m\<lparr>markingBorderRadius := None\<rparr>))
      \<and> containerStyle sheet state (Some m)
          = containerStyle sheet state (Some (m\<lparr>markingBorderRadius := None\<rparr>)))
   \<and> fillerBorderWidth m \<noteq> Num 0 \<and> fillerBorderRadius m \<noteq> Num 0
   \<and> borderRadius (baseContainerStyle m) \<noteq> Some (Num 0)
   \<and> containerStyle sheet state (Some m) ! (if isToday (Some m) state then 2 else 1)
       = baseContainerStyle m
   \<and> usesOnly (leftFillerStyle (threeSectionFillerStyles sheet (Some m)))
       (fillerBorderWidth m) (fillerBorderRadius m)
   \<and> usesOnly (middleFillerStyle (threeSectionFillerStyles sheet (Some m)))
       (fillerBorderWidth m) (fillerBorderRadius m)
   \<and> usesOnly (rightFillerStyle (threeSectionFillerStyles sheet (Some m)))
       (fillerBorderWidth m) (fillerBorderRadius m)
   \<and> usesOnly (fillerStyle (threeSectionFillerStyles sheet (Some m)))
       (fillerBorderWidth m) (fillerBorderRadius m)
   \<and> (\<not> truthyBool (isMultiPeriod m) \<and> truthyBool (startingDay m)
        \<and> \<not> truthyBool (endingDay m) \<longrightarrow>
      closesOnlyLeft (leftFillerStyle (threeSectionFillerStyles sheet (Some m)))
        (fillerBorderWidth m) (fillerBorderRadius m))
   \<and> (\<not> truthyBool (isMultiPeriod m) \<and> \<not> truthyBool (startingDay m)
        \<and> truthyBool (endingDay m) \<longrightarrow>
      closesOnlyRight (rightFillerStyle (threeSectionFillerStyles sheet (Some m)))
        (fillerBorderWidth m) (fillerBorderRadius m))
   \<and> (\<not> truthyBool (isMultiPeriod m) \<and> truthyBool (startingDay m)
        \<and> truthyBool (endingDay m) \<longrightarrow>
      fullyClosed (fillerStyle (threeSectionFillerStyles sheet (Some m)))
        (fillerBorderWidth m) (fillerBorderRadius m))
   \<and> (\<not> truthyBool (isMultiPeriod m) \<and> \<not> truthyBool (startingDay m)
        \<and> \<not> truthyBool (endingDay m) \<longrightarrow>
      borderTopWidth (fillerStyle (threeSectionFillerStyles sheet (Some m)))
        = Some (fillerBorderWidth m)
      \<and> borderBottomWidth (fillerStyle (threeSectionFillerStyles sheet (Some m)))
        = Some (fillerBorderWidth m))
   \<and> (truthyBool (isMultiPeriod m) \<and> truthyString (leftSectionColor m) \<longrightarrow>
      borderRightWidth (leftFillerStyle (threeSectionFillerStyles sheet (Some m)))
        = Some (fillerBorderWidth m)
      \<and> borderTopRightRadius (leftFillerStyle (threeSectionFillerStyles sheet (Some m)))
        = Some (fillerBorderRadius m)
      \<and> borderBottomRightRadius (leftFillerStyle (threeSectionFillerStyles sheet (Some m)))
        = Some (fillerBorderRadius m))
   \<and> (truthyBool (isMultiPeriod m) \<and> truthyString (middleSectionColor m) \<longrightarrow>
      fullyClosed (middleFillerStyle (threeSectionFillerStyles sheet (Some m)))
        (fillerBorderWidth m) (fillerBorderRadius m))
   \<and> (truthyBool (isMultiPeriod m) \<and> truthyString (rightSectionColor m) \<longrightarrow>
      borderLeftWidth (rightFillerStyle (threeSectionFillerStyles sheet (Some m)))
        = Some (fillerBorderWidth m)
      \<and> borderTopLeftRadius (rightFillerStyle (threeSectionFillerStyles sheet (Some m)))
        = Some (fillerBorderRadius m)
      \<and> borderBottomLeftRadius (rightFillerStyle (threeSectionFillerStyles sheet (Some m)))
        = Some (fillerBorderRadius m))
   \<and> (truthyBool (startingDay m) \<longrightarrow>
      (\<exists>s. ms_startingDay (markingStyle sheet (Some m)) = Some s
         \<and> borderWidth s = Some (fillerBorderWidth m)
         \<and> borderRadius s = Some (fillerBorderRadius m)))
   \<and> (truthyBool (endingDay m) \<longrightarrow>
      (\<exists>s. ms_endingDay (markingStyle sheet (Some m)) = Some s
         \<and> borderWidth s = Some (fillerBorderWidth m)
         \<and> borderRadius s = Some (fillerBorderRadius m)))
   \<and> (\<not> truthyBool (startingDay m) \<and> \<not> truthyBool (endingDay m) \<longrightarrow>
      (\<exists>s. ms_day (markingStyle sheet (Some m)) = Some s
         \<and> borderWidth s = Some (fillerBorderWidth m) \<and> borderRadius s = None))"
proof -
  have w: "\<not> truthyNumber (borderWith m)" if "borderWith m = Some (Num 0)"
    using that by simp
  have r: "\<not> truthyNumber (markingBorderRadius m)" if "markingBorderRadius m = Some (Num 0)"
    using that by simp
  have fw: "fillerBorderWidth m = Num (7/10)" if "borderWith m = Some (Num 0)"
    using that by (simp add: fillerBorderWidth_def orNumber_zero)
  have fr: "fillerBorderRadius m = Num 9" if "markingBorderRadius m = Some (Num 0)"
    using that by (simp add: fillerBorderRadius_def orNumber_zero)
  have cr: "borderRadius (baseContainerStyle m) = Some (Num 17)"
    if "markingBorderRadius m = Some (Num 0)"
    using that by (simp add: baseContainerStyle_def orNumber_zero)
  have n: "borderRadius (baseContainerStyle m) \<noteq> Some (Num 0)"
    by (simp add: baseContainerStyle_def orNumber_nonzero)
  have zero: "(borderWith m = Some (Num 0) \<longrightarrow>
      fillerBorderWidth m = Num (7/10)
      \<and> threeSectionFillerStyles sheet (Some m)
          = threeSectionFillerStyles sheet (Some (m\<lparr>borderWith := None\<rparr>))
      \<and> markingStyle sheet (Some m) = markingStyle sheet (Some (m\<lparr>borderWith := None\<rparr>))
      \<and> containerStyle sheet state (Some m)
          = containerStyle sheet state (Some (m\<lparr>borderWith := None\<rparr>)))
   \<and> (markingBorderRadius m = Some (Num 0) \<longrightarrow>
      fillerBorderRadius m = Num 9
      \<and> borderRadius (baseContainerStyle m) = Some (Num 17)
      \<and> threeSectionFillerStyles sheet (Some m)
          = threeSectionFillerStyles sheet (Some (m\<lparr>markingBorderRadius := None\<rparr>))
      \<and> markingStyle sheet (Some m)
          = markingStyle sheet (Some (m\<lparr>markingBorderRadius := None\<rparr>))
      \<and> containerStyle sheet state (Some m)
          = containerStyle sheet state (Some (m\<lparr>markingBorderRadius := None\<rparr>)))
   \<and> fillerBorderWidth m \<noteq> Num 0 \<and> fillerBorderRadius m \<noteq> Num 0
   \<and> borderRadius (baseContainerStyle m) \<noteq> Some (Num 0)"
    using fw fr cr n fillerBorderWidth_nonzero [of m] fillerBorderRadius_nonzero [of m]
      threeSection_width [OF w, of sheet] markingStyle_width [OF w, of sheet]
      container_width [OF w, of sheet state]
      threeSection_radius [OF r, of sheet] markingStyle_radius [OF r, of sheet]
      container_radius [OF r, of sheet state]
    by metis
  have pe: "borderWidth (periodEdgeStyle m) = Some (fillerBorderWidth m)"
    "borderRadius (periodEdgeStyle m) = Some (fillerBorderRadius m)"
    by (simp_all add: periodEdgeStyle_def fillerBorderWidth_def fillerBorderRadius_def)
  have pd: "borderWidth (periodDayStyle m) = Some (fillerBorderWidth m)"
    "borderRadius (periodDayStyle m) = None"
    by (simp_all add: periodDayStyle_def fillerBorderWidth_def emptyStyle_def)
  have ms: "(truthyBool (startingDay m) \<longrightarrow>
      (\<exists>s. ms_startingDay (markingStyle sheet (Some m)) = Some s
         \<and> borderWidth s = Some (fillerBorderWidth m)
         \<and> borderRadius s = Some (fillerBorderRadius m)))"
    "(truthyBool (endingDay m) \<longrightarrow>
      (\<exists>s. ms_endingDay (markingStyle sheet (Some m)) = Some s
         \<and> borderWidth s = Some (fillerBorderWidth m)
         \<and> borderRadius s = Some (fillerBorderRadius m)))"
    "(\<not> truthyBool (startingDay m) \<and> \<not> truthyBool (endingDay m) \<longrightarrow>
      (\<exists>s. ms_day (markingStyle sheet (Some m)) = Some s
         \<and> borderWidth s = Some (fillerBorderWidth m) \<and> borderRadius s = None))"
    by (simp_all add: markingStyle_startingDay markingStyle_endingDay markingStyle_day pe pd)
  note u = threeSection_usesOnly [of sheet m]
  note c = containerStyle_base_entry [of sheet state m]
  have shapes: "(\<not> truthyBool (isMultiPeriod m) \<and> truthyBool (startingDay m)
        \<and> \<not> truthyBool (endingDay m) \<longrightarrow>
      closesOnlyLeft (leftFillerStyle (threeSectionFillerStyles sheet (Some m)))
        (fillerBorderWidth m) (fillerBorderRadius m))"
    "(\<not> truthyBool (isMultiPeriod m) \<and> \<not> truthyBool (startingDay m)
        \<and> truthyBool (endingDay m) \<longrightarrow>
      closesOnlyRight (rightFillerStyle (threeSectionFillerStyles sheet (Some m)))
        (fillerBorderWidth m) (fillerBorderRadius m))"
    "(\<not> truthyBool (isMultiPeriod m) \<and> truthyBool (startingDay m)
        \<and> truthyBool (endingDay m) \<longrightarrow>
      fullyClosed (fillerStyle (threeSectionFillerStyles sheet (Some m)))
        (fillerBorderWidth m) (fillerBorderRadius m))"
    "(\<not> truthyBool (isMultiPeriod m) \<and> \<not> truthyBool (startingDay m)
        \<and> \<not> truthyBool (endingDay m) \<longrightarrow>
      borderTopWidth (fillerStyle (threeSectionFillerStyles sheet (Some m)))
        = Some (fillerBorderWidth m)
      \<and> borderBottomWidth (fillerStyle (threeSectionFillerStyles sheet (Some m)))
        = Some (fillerBorderWidth m))"
    using single_start_only [of m sheet] single_end_only [of m sheet] single_both [of m sheet]
      single_neither [of m sheet] by blast+
  have sections: "(truthyBool (isMultiPeriod m) \<and> truthyString (leftSectionColor m) \<longrightarrow>
      borderRightWidth (leftFillerStyle (threeSectionFillerStyles sheet (Some m)))
        = Some (fillerBorderWidth m)
      \<and> borderTopRightRadius (leftFillerStyle (threeSectionFillerStyles sheet (Some m)))
        = Some (fillerBorderRadius m)
      \<and> borderBottomRightRadius (leftFillerStyle (threeSectionFillerStyles sheet (Some m)))
        = Some (fillerBorderRadius m))"
    "(truthyBool (isMultiPeriod m) \<and> truthyString (middleSectionColor m) \<longrightarrow>
      fullyClosed (middleFillerStyle (threeSectionFillerStyles sheet (Some m)))
        (fillerBorderWidth m) (fillerBorderRadius m))"
    "(truthyBool (isMultiPeriod m) \<and> truthyString (rightSectionColor m) \<longrightarrow>
      borderLeftWidth (rightFillerStyle (threeSectionFillerStyles sheet (Some m)))
        = Some (fillerBorderWidth m)
      \<and> borderTopLeftRadius (rightFillerStyle (threeSectionFillerStyles sheet (Some m)))
        = Some (fillerBorderRadius m)
      \<and> borderBottomLeftRadius (rightFillerStyle (threeSectionFillerStyles sheet (Some m)))
        = Some (fillerBorderRadius m))"
    using multi_left [of m sheet] multi_middle [of m sheet] multi_right [of m sheet]
    by blast+
  show ?thesis
    by (intro conjI zero [THEN conjunct1] zero [THEN conjunct2, THEN conjunct1]
        zero [THEN conjunct2, THEN conjunct2, THEN conjunct1]
        zero [THEN conjunct2, THEN conjunct2, THEN conjunct2, THEN conjunct1]
        zero [THEN conjunct2, THEN conjunct2, THEN conjunct2, THEN conjunct2]
        c u [THEN conjunct1] u [THEN conjunct2, THEN conjunct1]
        u [THEN conjunct2, THEN conjunct2, THEN conjunct1]
        u [THEN conjunct2, THEN conjunct2, THEN conjunct2]
        shapes sections ms)
qed

theorem C10_witness:
  "borderWith zeroMarking = Some (Num 0) \<and> markingBorderRadius zeroMarking = Some (Num 0)
   \<and> fillerBorderWidth zeroMarking = Num (7/10) \<and> fillerBorderRadius zeroMarking = Num 9
   \<and> borderRadius (baseContainerStyle zeroMarking) = Some (Num 17)
   \<and> \<not> isToday (Some zeroMarking) (Some Empty)
   \<and> borderRadius (containerStyle exampleSheet (Some Empty) (Some zeroMarking) ! 1)
       = Some (Num 17)
   \<and> \<not> truthyBool (isMultiPeriod zeroMarking) \<and> truthyBool (startingDay zeroMarking)
   \<and> \<not> truthyBool (endingDay zeroMarking)
   \<and> borderLeftWidth (leftFillerStyle (threeSectionFillerStyles exampleSheet
        (Some zeroMarking))) = Some (Num (7/10))
   \<and> borderTopLeftRadius (leftFillerStyle (threeSectionFillerStyles exampleSheet
        (Some zeroMarking))) = Some (Num 9)
   \<and> borderWith zeroMultiMarking = Some (Num 0)
   \<and> markingBorderRadius zeroMultiMarking = Some (Num 0)
   \<and> truthyBool (isMultiPeriod zeroMultiMarking)
   \<and> truthyString (middleSectionColor zeroMultiMarking)
   \<and> fullyClosed (middleFillerStyle (threeSectionFillerStyles exampleSheet
        (Some zeroMultiMarking))) (Num (7/10)) (Num 9)"
proof -
  have z: "borderWith zeroMarking = Some (Num 0)"
    "markingBorderRadius zeroMarking = Some (Num 0)"
    by (simp_all add: zeroMarking_def)
  have s: "\<not> truthyBool (isMultiPeriod zeroMarking)" "truthyBool (startingDay zeroMarking)"
    "\<not> truthyBool (endingDay zeroMarking)" "\<not> isToday (Some zeroMarking) (Some Empty)"
    by (simp_all add: zeroMarking_def startMarking_def emptyMarking_def isToday_def)
  have z': "borderWith zeroMultiMarking = Some (Num 0)"
    "markingBorderRadius zeroMultiMarking = Some (Num 0)"
    by (simp_all add: zeroMultiMarking_def)
  have s': "truthyBool (isMultiPeriod zeroMultiMarking)"
    "truthyString (middleSectionColor zeroMultiMarking)"
    by (simp_all add: zeroMultiMarking_def threeSectionMarking_def twoSectionMarking_def
        emptyMarking_def)
  note a = C10_zero_reads_as_absent [of zeroMarking exampleSheet "Some Empty"]
  note b = C10_zero_reads_as_absent [of zeroMultiMarking exampleSheet "Some Empty"]
  have t: "fillerBorderWidth zeroMarking = Num (7/10)" "fillerBorderRadius zeroMarking = Num 9"
    "borderRadius (baseContainerStyle zeroMarking) = Some (Num 17)"
    using a z by blast+
  have c: "containerStyle exampleSheet (Some Empty) (Some zeroMarking) ! 1
             = baseContainerStyle zeroMarking"
    using a s(4) by simp
  have l: "closesOnlyLeft (leftFillerStyle (threeSectionFillerStyles exampleSheet
        (Some zeroMarking))) (Num (7/10)) (Num 9)"
    using a s unfolding t(1,2) by blast
  have t': "fillerBorderWidth zeroMultiMarking = Num (7/10)"
    "fillerBorderRadius zeroMultiMarking = Num 9"
    using b z' by blast+
  have f: "fullyClosed (middleFillerStyle (threeSectionFillerStyles exampleSheet
        (Some zeroMultiMarking))) (Num (7/10)) (Num 9)"
    using b s' unfolding t' by blast
  have cr: "borderRadius (containerStyle exampleSheet (Some Empty) (Some zeroMarking) ! 1)
       = Some (Num 17)"
    by (simp only: c t(3))
  show ?thesis
    using z s t l z' s' f cr by (simp add: closesOnlyLeft_def)
qed


end
